theory Spec2Isabelle
  imports Main
begin

section \<open>Shared vocabulary of robothlon.py\<close>

text \<open>
  The enumerations of the source with their integer values, the exceptions the modelled
  code can raise, and the commands that travel through the transport's queue.
\<close>

datatype DeviceState = unknown | previous | paused | operational | reload | damaged | destroyed

fun DeviceState_value :: "DeviceState \<Rightarrow> int" where
  "DeviceState_value unknown = -1"
| "DeviceState_value previous = 0"
| "DeviceState_value paused = 1"
| "DeviceState_value operational = 2"
| "DeviceState_value reload = 3"
| "DeviceState_value damaged = 4"
| "DeviceState_value destroyed = 5"

datatype DeviceType = tank | target | turret

fun DeviceType_value :: "DeviceType \<Rightarrow> int" where
  "DeviceType_value tank = 0"
| "DeviceType_value target = 1"
| "DeviceType_value turret = 2"

datatype DeviceMode = training | combat

fun DeviceMode_value :: "DeviceMode \<Rightarrow> int" where
  "DeviceMode_value training = 0"
| "DeviceMode_value combat = 1"

text \<open>The exceptions of Python that the modelled paths can raise.\<close>

datatype error = ValueError | KeyError | IndexError | UnicodeDecodeError

text \<open>
  A callback stored in the queue is a bound method of the device manager or of the game
  manager; the datatype names the seven methods that the source registers.
\<close>

datatype callback =
    process_query_response_cb
  | process_set_mode_response_cb
  | process_reset_response_cb
  | process_start_response_cb
  | process_stop_response_cb
  | process_pause_response_cb
  | process_unpause_response_cb

text \<open>The dictionary \<open>{'request': ..., 'callback': ...}\<close> appended by \<open>send_command\<close>.\<close>

record command =
  request :: string
  callback :: "callback option"

definition crlf :: string where
  "crlf = [CHR 0x0D, CHR 0x0A]"

text \<open>Python's \<open>"{:d}".format(i)\<close>: decimal digits, with a minus sign below zero.\<close>

definition digit_char :: "nat \<Rightarrow> char" where
  "digit_char d = char_of (48 + d)"

fun digits_nat :: "nat \<Rightarrow> string" where
  "digits_nat n = (if n < 10 then [digit_char n]
                   else digits_nat (n div 10) @ [digit_char (n mod 10)])"

declare digits_nat.simps [simp del]

definition format_d :: "int \<Rightarrow> string" where
  "format_d i = (if i < 0 then CHR ''-'' # digits_nat (nat (- i)) else digits_nat (nat i))"


section \<open>GameManager: the session controller\<close>

datatype game_state = g_disabled | g_idle | g_ready | g_running | g_paused

text \<open>The status-bar texts of the source are named by what failed.\<close>

datatype game_message = reset_failed | start_failed | stop_failed | pause_failed | unpause_failed

datatype game_signal =
    game_resetted
  | game_started
  | game_stopped
  | game_paused
  | game_unpaused
  | enabled_sig
  | disabled_sig
  | time_sig int
  | message_sig game_message

text \<open>
  \<open>elapsed_timer\<close> is the \<open>QElapsedTimer\<close>: \<open>None\<close> while invalid, otherwise the reading
  of the monotonic clock (milliseconds) at its last \<open>start()\<close>. \<open>tick_timer\<close> is whether
  the 250 ms \<open>QTimer\<close> runs. Every operation takes the current clock reading \<open>now\<close>.
\<close>

record game_manager =
  game_duration :: int
  tick_timer :: bool
  elapsed_timer :: "int option"
  prev_elapsed_time :: int
  g_state :: game_state

type_synonym game_result = "game_manager \<times> command list \<times> game_signal list"

definition game_init :: "int \<Rightarrow> game_manager" where
  "game_init duration =
     \<lparr>game_duration = duration, tick_timer = False, elapsed_timer = None,
      prev_elapsed_time = 0, g_state = g_disabled\<rparr>"

text \<open>The milliseconds that \<open>refresh_time\<close> adds up before dividing by 1000.\<close>

definition elapsed_ms :: "game_manager \<Rightarrow> int \<Rightarrow> int" where
  "elapsed_ms g now =
     prev_elapsed_time g + (case elapsed_timer g of None \<Rightarrow> 0 | Some t0 \<Rightarrow> now - t0)"

definition refresh_time :: "game_manager \<Rightarrow> int \<Rightarrow> int" where
  "refresh_time g now = elapsed_ms g now div 1000"

definition start_timer :: "bool \<Rightarrow> game_manager \<Rightarrow> int \<Rightarrow> game_manager \<times> game_signal list" where
  "start_timer reset g now =
     (let g1 = (if reset then g\<lparr>prev_elapsed_time := 0\<rparr> else g);
          seconds = refresh_time g1 now
      in (g1\<lparr>elapsed_timer := Some now, tick_timer := True\<rparr>, [time_sig seconds]))"

definition stop_timer :: "bool \<Rightarrow> game_manager \<Rightarrow> int \<Rightarrow> game_manager \<times> game_signal list" where
  "stop_timer reset g now =
     (let g1 = g\<lparr>tick_timer := False\<rparr>;
          g2 = (if reset then g1\<lparr>prev_elapsed_time := 0\<rparr>
                else (case elapsed_timer g1 of
                        Some t0 \<Rightarrow> g1\<lparr>prev_elapsed_time := prev_elapsed_time g1 + (now - t0)\<rparr>
                      | None \<Rightarrow> g1));
          g3 = g2\<lparr>elapsed_timer := None\<rparr>
      in (g3, [time_sig (refresh_time g3 now)]))"

definition game_enable :: "game_manager \<Rightarrow> int \<Rightarrow> game_result" where
  "game_enable g now =
     (if g_state g \<noteq> g_disabled then (g, [], [])
      else (let (g1, sigs) = stop_timer True g now
            in (g1\<lparr>g_state := g_idle\<rparr>, [], sigs @ [enabled_sig])))"

definition game_disable :: "game_manager \<Rightarrow> int \<Rightarrow> game_result" where
  "game_disable g now =
     (let (g1, sigs) = stop_timer True g now
      in (g1\<lparr>g_state := g_disabled\<rparr>, [], sigs @ [disabled_sig]))"

definition reset_command :: command where
  "reset_command = \<lparr>request = ''Reset4Combat'' @ crlf, callback = Some process_reset_response_cb\<rparr>"

definition state_command :: "DeviceState \<Rightarrow> callback \<Rightarrow> command" where
  "state_command ds cb =
     \<lparr>request = ''SetState4Combat '' @ format_d (DeviceState_value ds) @ crlf,
      callback = Some cb\<rparr>"

definition reset_game :: "game_manager \<Rightarrow> game_result" where
  "reset_game g =
     (if g_state g = g_disabled then (g, [], [])
      else (g, [reset_command], []))"

definition process_reset_response :: "game_manager \<Rightarrow> string \<Rightarrow> int \<Rightarrow> game_result" where
  "process_reset_response g response now =
     (if response = ''Ack 0''
      then (let (g1, sigs) = stop_timer True g now
            in (g1\<lparr>g_state := g_ready\<rparr>, [], sigs @ [game_resetted]))
      else (g, [], [message_sig reset_failed]))"

definition start_game :: "game_manager \<Rightarrow> game_result" where
  "start_game g =
     (if g_state g \<noteq> g_ready then (g, [], [])
      else (g, [state_command operational process_start_response_cb], []))"

definition process_start_response :: "game_manager \<Rightarrow> string \<Rightarrow> int \<Rightarrow> game_result" where
  "process_start_response g response now =
     (if response = ''Ack 0''
      then (let (g1, sigs) = start_timer True g now
            in (g1\<lparr>g_state := g_running\<rparr>, [], sigs @ [game_started]))
      else (g, [], [message_sig start_failed]))"

definition stop_game :: "game_manager \<Rightarrow> game_result" where
  "stop_game g =
     (if g_state g \<noteq> g_running \<and> g_state g \<noteq> g_paused then (g, [], [])
      else (g, [state_command destroyed process_stop_response_cb], []))"

definition process_stop_response :: "game_manager \<Rightarrow> string \<Rightarrow> int \<Rightarrow> game_result" where
  "process_stop_response g response now =
     (if response = ''Ack 0''
      then (let (g1, sigs) = stop_timer False g now
            in (g1\<lparr>g_state := g_idle\<rparr>, [], sigs @ [game_stopped]))
      else (g, [], [message_sig stop_failed]))"

definition pause_game :: "game_manager \<Rightarrow> game_result" where
  "pause_game g =
     (if g_state g \<noteq> g_running \<and> g_state g \<noteq> g_paused then (g, [], [])
      else if g_state g = g_running
      then (g, [state_command paused process_pause_response_cb], [])
      else if g_state g = g_paused
      then (g, [state_command previous process_unpause_response_cb], [])
      else (g, [], []))"

definition process_pause_response :: "game_manager \<Rightarrow> string \<Rightarrow> int \<Rightarrow> game_result" where
  "process_pause_response g response now =
     (if response = ''Ack 0''
      then (let (g1, sigs) = stop_timer False g now
            in (g1\<lparr>g_state := g_paused\<rparr>, [], sigs @ [game_paused]))
      else (g, [], [message_sig pause_failed]))"

definition process_unpause_response :: "game_manager \<Rightarrow> string \<Rightarrow> int \<Rightarrow> game_result" where
  "process_unpause_response g response now =
     (if response = ''Ack 0''
      then (let (g1, sigs) = start_timer False g now
            in (g1\<lparr>g_state := g_running\<rparr>, [], sigs @ [game_unpaused]))
      else (g, [], [message_sig unpause_failed]))"

definition timer_callback :: "game_manager \<Rightarrow> int \<Rightarrow> game_result" where
  "timer_callback g now =
     (let seconds = refresh_time g now
      in (if g_state g = g_running
          then (if seconds \<ge> game_duration g
                then (let (g1, cmds, sigs) = stop_game g in (g1, cmds, time_sig seconds # sigs))
                else (g, [], [time_sig seconds]))
          else (g, [], [time_sig seconds])))"


section \<open>CommandTransport: the serialised command queue\<close>

datatype transport_state = t_disabled | t_idle | t_work

text \<open>
  What the transport does to its queue, its port and its two completion flags, in the
  order in which the code does it: \<open>enqueued\<close> is the \<open>append\<close> of \<open>send_command\<close>,
  \<open>written\<close> the \<open>write\<close> on the serial port, \<open>write_done\<close> and \<open>read_done\<close> the
  assignments of \<open>True\<close> to the two flags, \<open>called\<close> the invocation of a callback,
  \<open>popped\<close> the \<open>popleft\<close> of \<open>_finalize_request\<close>, \<open>cleared\<close> the \<open>clear\<close> of the queue
  and \<open>shut\<close> an assignment of the state \<open>disabled\<close>.
\<close>

datatype effect =
    enqueued command
  | written string
  | write_done
  | read_done
  | called callback string
  | popped command
  | cleared
  | shut

text \<open>\<open>delay_timer\<close> is whether the single-shot \<open>QTimer\<close> of 10 ms is running.\<close>

record command_transport =
  command_queue :: "command list"
  delay_timer :: bool
  unsent_bytes :: int
  t_state :: transport_state
  read_complete :: bool
  write_complete :: bool

type_synonym transport_result = "error + (command_transport \<times> effect list)"

definition transport_init :: command_transport where
  "transport_init =
     \<lparr>command_queue = [], delay_timer = False, unsent_bytes = 0, t_state = t_disabled,
      read_complete = False, write_complete = False\<rparr>"

definition ping_command :: command where
  "ping_command = \<lparr>request = ''Ping'' @ crlf, callback = None\<rparr>"

definition send_command :: "command_transport \<Rightarrow> command \<Rightarrow> command_transport \<times> effect list" where
  "send_command t c =
     (let t1 = t\<lparr>command_queue := command_queue t @ [c]\<rparr>
      in ((if t_state t1 = t_idle then t1\<lparr>delay_timer := True\<rparr> else t1), [enqueued c]))"

fun send_commands :: "command_transport \<Rightarrow> command list \<Rightarrow> command_transport \<times> effect list" where
  "send_commands t [] = (t, [])"
| "send_commands t (c # cs) =
     (let (t1, e1) = send_command t c; (t2, e2) = send_commands t1 cs in (t2, e1 @ e2))"

text \<open>
  \<open>is_open\<close> is what \<open>isOpen()\<close> of the serial port answers. \<open>_command_queue[0]\<close> raises
  \<open>IndexError\<close> on an empty deque. The requests of this program are ASCII, so the
  length of the encoded bytes is the length of the string.
\<close>

definition process_request :: "bool \<Rightarrow> command_transport \<Rightarrow> transport_result" where
  "process_request is_open t =
     (if t_state t \<noteq> t_idle then Inr (t, [])
      else if \<not> is_open then Inr (t\<lparr>t_state := t_disabled\<rparr>, [shut])
      else (case command_queue t of
              [] \<Rightarrow> Inl IndexError
            | c # cs \<Rightarrow>
                Inr (t\<lparr>unsent_bytes := int (length (request c)), t_state := t_work,
                       read_complete := False, write_complete := False\<rparr>,
                     [written (request c)])))"

definition transport_enable :: "bool \<Rightarrow> command_transport \<Rightarrow> transport_result" where
  "transport_enable is_open t =
     (if t_state t \<noteq> t_disabled then Inr (t, [])
      else (let (t1, e1) = send_command (t\<lparr>t_state := t_idle\<rparr>) ping_command
            in (if length (command_queue t1) \<noteq> 0
                then (case process_request is_open t1 of
                        Inl err \<Rightarrow> Inl err
                      | Inr (t2, e2) \<Rightarrow> Inr (t2, e1 @ e2))
                else Inr (t1, e1))))"

definition transport_disable :: "command_transport \<Rightarrow> command_transport \<times> effect list" where
  "transport_disable t = (t\<lparr>delay_timer := False, t_state := t_disabled\<rparr>, [shut])"

definition transport_clear :: "command_transport \<Rightarrow> command_transport \<times> effect list" where
  "transport_clear t =
     (t\<lparr>delay_timer := False, command_queue := [], unsent_bytes := 0\<rparr>, [cleared])"

text \<open>\<open>popleft\<close> raises \<open>IndexError\<close> on an empty deque.\<close>

definition finalize_request :: "command_transport \<Rightarrow> transport_result" where
  "finalize_request t =
     (if t_state t \<noteq> t_work then Inr (t, [])
      else (case command_queue t of
              [] \<Rightarrow> Inl IndexError
            | c # cs \<Rightarrow>
                (let t1 = t\<lparr>command_queue := cs, t_state := t_idle\<rparr>
                 in Inr ((if length (command_queue t1) \<noteq> 0 then t1\<lparr>delay_timer := True\<rparr> else t1),
                         [popped c]))))"

definition handle_write :: "int \<Rightarrow> command_transport \<Rightarrow> transport_result" where
  "handle_write sent_bytes t =
     (if t_state t \<noteq> t_work then Inr (t, [])
      else (let t1 = t\<lparr>unsent_bytes := unsent_bytes t - sent_bytes\<rparr>
            in (if unsent_bytes t1 = 0
                then (let t2 = t1\<lparr>write_complete := True\<rparr>
                      in (if read_complete t2
                          then (case finalize_request t2 of
                                  Inl err \<Rightarrow> Inl err
                                | Inr (t3, e3) \<Rightarrow> Inr (t3, write_done # e3))
                          else Inr (t2, [write_done])))
                else Inr (t1, []))))"

text \<open>
  \<open>str.strip()\<close> removes the characters for which \<open>str.isspace\<close> holds; among the ASCII
  characters these are 9 to 13, 28 to 31 and the blank.
\<close>

definition py_isspace :: "char \<Rightarrow> bool" where
  "py_isspace c = (let n = (of_char c :: nat) in (9 \<le> n \<and> n \<le> 13) \<or> (28 \<le> n \<and> n \<le> 32))"

definition py_strip :: "string \<Rightarrow> string" where
  "py_strip s = rev (dropWhile py_isspace (rev (dropWhile py_isspace s)))"

text \<open>\<open>bytes.decode('ascii')\<close> raises on a byte above 127.\<close>

definition decode_ascii :: "string \<Rightarrow> error + string" where
  "decode_ascii bs = (if list_all (\<lambda>c. (of_char c :: nat) < 128) bs then Inr bs
                      else Inl UnicodeDecodeError)"

text \<open>
  \<open>line\<close> is \<open>None\<close> when \<open>canReadLine()\<close> is false, otherwise the bytes that \<open>readLine()\<close>
  returns. The callbacks of this program touch the transport only through
  \<open>send_command\<close>; \<open>cb_sends\<close> lists the commands that the invoked callback sends, and
  \<open>cb_raises\<close> the exception it ends with, if any.
\<close>

definition handle_read ::
  "string option \<Rightarrow> command list \<Rightarrow> error option \<Rightarrow> command_transport \<Rightarrow> transport_result" where
  "handle_read line cb_sends cb_raises t =
     (if t_state t \<noteq> t_work then Inr (t, [])
      else (case line of
              None \<Rightarrow> Inr (t, [])
            | Some bs \<Rightarrow>
                (case decode_ascii bs of
                   Inl err \<Rightarrow> Inl err
                 | Inr decoded \<Rightarrow>
                     (let response = py_strip decoded
                      in (if length response \<noteq> 0
                          then (case command_queue t of
                                  [] \<Rightarrow> Inl IndexError
                                | c # cs \<Rightarrow>
                                    (case (case callback c of
                                             None \<Rightarrow> Inr (t, [])
                                           | Some cb \<Rightarrow>
                                               (let (t1, e1) = send_commands t cb_sends
                                                in (case cb_raises of
                                                      Some err \<Rightarrow> Inl err
                                                    | None \<Rightarrow> Inr (t1, called cb response # e1)))) of
                                       Inl err \<Rightarrow> Inl err
                                     | Inr (t1, e1) \<Rightarrow>
                                         (let t2 = t1\<lparr>read_complete := True\<rparr>
                                          in (if write_complete t2
                                              then (case finalize_request t2 of
                                                      Inl err \<Rightarrow> Inl err
                                                    | Inr (t3, e3) \<Rightarrow> Inr (t3, e1 @ read_done # e3))
                                              else Inr (t2, e1 @ [read_done])))))
                          else Inr (t, []))))))"

text \<open>The single-shot timer fires only while it runs, and is stopped by firing.\<close>

definition timer_timeout :: "bool \<Rightarrow> command_transport \<Rightarrow> transport_result" where
  "timer_timeout is_open t =
     (if delay_timer t then process_request is_open (t\<lparr>delay_timer := False\<rparr>) else Inr (t, []))"

datatype transport_event =
    te_enable bool
  | te_disable
  | te_clear
  | te_send command
  | te_timeout bool
  | te_bytes_written int
  | te_ready_read "string option" "command list" "error option"

fun transport_step :: "command_transport \<Rightarrow> transport_event \<Rightarrow> transport_result" where
  "transport_step t (te_enable is_open) = transport_enable is_open t"
| "transport_step t te_disable = Inr (transport_disable t)"
| "transport_step t te_clear = Inr (transport_clear t)"
| "transport_step t (te_send c) = Inr (send_command t c)"
| "transport_step t (te_timeout is_open) = timer_timeout is_open t"
| "transport_step t (te_bytes_written n) = handle_write n t"
| "transport_step t (te_ready_read line cb_sends cb_raises) = handle_read line cb_sends cb_raises t"

fun transport_run :: "command_transport \<Rightarrow> transport_event list \<Rightarrow> transport_result" where
  "transport_run t [] = Inr (t, [])"
| "transport_run t (ev # evs) =
     (case transport_step t ev of
        Inl err \<Rightarrow> Inl err
      | Inr (t1, e1) \<Rightarrow>
          (case transport_run t1 evs of
             Inl err \<Rightarrow> Inl err
           | Inr (t2, e2) \<Rightarrow> Inr (t2, e1 @ e2)))"


section \<open>DeviceManager: the registry and the poller\<close>

text \<open>
  The members of \<open>DeviceParam\<close>. Subscripting an \<open>Enum\<close> class with a name that is not
  a member raises \<open>KeyError\<close>.
\<close>

definition DeviceParam_by_name :: "string \<Rightarrow> error + int" where
  "DeviceParam_by_name name =
     (if name = ''DefaultHitCnt'' then Inr 1
      else if name = ''CurrentHitCnt'' then Inr 2
      else if name = ''Group'' then Inr 3
      else if name = ''IRPower'' then Inr 4
      else if name = ''IRDamage'' then Inr 5
      else if name = ''ReloadTime'' then Inr 6
      else if name = ''RepairTime'' then Inr 7
      else Inl KeyError)"

text \<open>Calling an \<open>Enum\<close> class with a value that no member has raises \<open>ValueError\<close>.\<close>

definition DeviceType_of_int :: "int \<Rightarrow> error + DeviceType" where
  "DeviceType_of_int i =
     (if i = 0 then Inr tank else if i = 1 then Inr target else if i = 2 then Inr turret
      else Inl ValueError)"

definition DeviceMode_of_int :: "int \<Rightarrow> error + DeviceMode" where
  "DeviceMode_of_int i =
     (if i = 0 then Inr training else if i = 1 then Inr combat else Inl ValueError)"

definition DeviceState_of_int :: "int \<Rightarrow> error + DeviceState" where
  "DeviceState_of_int i =
     (if i = -1 then Inr unknown
      else if i = 0 then Inr previous
      else if i = 1 then Inr paused
      else if i = 2 then Inr operational
      else if i = 3 then Inr reload
      else if i = 4 then Inr damaged
      else if i = 5 then Inr destroyed
      else Inl ValueError)"

text \<open>A record of the registry; every record stored there has all its fields set.\<close>

record Device =
  dev_id :: int
  dev_type :: DeviceType
  dev_group :: int
  dev_mode :: DeviceMode
  dev_state :: DeviceState
  dev_health :: int
  dev_time :: int
  missing_in_action :: bool

datatype dm_signal = device_updated Device | upload_started | upload_finished

record device_manager =
  devices :: "int \<rightharpoonup> Device"
  current_device :: int
  upload :: bool
  first_uploaded :: "int option"
  dm_enabled :: bool

definition FIRST_DEVICE :: int where
  "FIRST_DEVICE = 1"

definition LAST_DEVICE :: int where
  "LAST_DEVICE = 31"

definition dm_init :: device_manager where
  "dm_init = \<lparr>devices = Map.empty, current_device = FIRST_DEVICE, upload = False,
              first_uploaded = None, dm_enabled = False\<rparr>"

text \<open>
  The settings manager reads an INI file through Qt; \<open>settings\<close> stands for its
  \<open>get_device_params\<close>, giving the \<open>items()\<close> of the dictionary it returns.
\<close>

type_synonym settings = "DeviceType \<Rightarrow> int \<Rightarrow> (string \<times> int) list"

definition getinfo_command :: "int \<Rightarrow> command" where
  "getinfo_command addr =
     \<lparr>request = ''GetInfo '' @ format_d addr @ crlf, callback = Some process_query_response_cb\<rparr>"

definition setparameter_command :: "int \<Rightarrow> int \<Rightarrow> int \<Rightarrow> command" where
  "setparameter_command addr param_id param_value =
     \<lparr>request = ''SetParameter '' @ format_d addr @ '', '' @ format_d param_id @ '', ''
                 @ format_d param_value @ crlf,
      callback = None\<rparr>"

text \<open>
  The \<open>try\<close> around the lookup of the parameter name: \<open>ValueError\<close> is caught and gives
  \<open>None\<close>, any other exception leaves the handler.
\<close>

definition lookup_param_id :: "string \<Rightarrow> error + int option" where
  "lookup_param_id param_name =
     (case DeviceParam_by_name param_name of
        Inr v \<Rightarrow> Inr (Some v)
      | Inl ValueError \<Rightarrow> Inr None
      | Inl err \<Rightarrow> Inl err)"

text \<open>
  The loop over \<open>params.items()\<close>: the commands sent so far, and the exception that
  ended the loop, if one did.
\<close>

fun send_params :: "int \<Rightarrow> (string \<times> int) list \<Rightarrow> command list \<times> error option" where
  "send_params addr [] = ([], None)"
| "send_params addr ((param_name, param_value) # rest) =
     (case lookup_param_id param_name of
        Inl err \<Rightarrow> ([], Some err)
      | Inr None \<Rightarrow> send_params addr rest
      | Inr (Some param_id) \<Rightarrow>
          (let (cmds, err) = send_params addr rest
           in (setparameter_command addr param_id param_value # cmds, err)))"

text \<open>
  A method of the device manager gives the manager as the method leaves it, the commands
  it passed to \<open>send_command\<close>, the signals it emitted, and the exception it raised, if
  any: what was assigned and sent before an exception stays assigned and sent.
\<close>

type_synonym dm_result = "device_manager \<times> command list \<times> dm_signal list \<times> error option"

definition query_next_device :: "settings \<Rightarrow> device_manager \<Rightarrow> dm_result" where
  "query_next_device params dm =
     (if \<not> dm_enabled dm then (dm, [], [], None)
      else (let query = getinfo_command (current_device dm);
                (dm1, sigs) =
                  (if upload dm \<and> first_uploaded dm \<noteq> None
                      \<and> first_uploaded dm = Some (current_device dm)
                   then (dm\<lparr>first_uploaded := None, upload := False\<rparr>, [upload_finished])
                   else (dm, []))
            in (if upload dm1
                then (let dm2 = (if first_uploaded dm1 = None
                                 then dm1\<lparr>first_uploaded := Some (current_device dm1)\<rparr>
                                 else dm1)
                      in (case devices dm2 (current_device dm2) of
                            None \<Rightarrow> (dm2, [query], sigs, None)
                          | Some device \<Rightarrow>
                              (if \<not> missing_in_action device
                               then (let (cmds, err) =
                                           send_params (current_device dm2)
                                             (params (dev_type device) (dev_id device))
                                     in (dm2, query # cmds, sigs, err))
                               else (dm2, [query], sigs, None))))
                else (dm1, [query], sigs, None))))"

text \<open>
  The compiled pattern is six times \<open>(\d+)\<close> with \<open>[\s,]+\<close> between them, anchored at the
  start only, under \<open>re.ASCII\<close>. The two character classes are disjoint, so the greedy
  match is the only one: the longest run of digits, then the longest run of separators.
\<close>

definition is_digit :: "char \<Rightarrow> bool" where
  "is_digit c = (let n = (of_char c :: nat) in 48 \<le> n \<and> n \<le> 57)"

definition is_sep :: "char \<Rightarrow> bool" where
  "is_sep c = (let n = (of_char c :: nat) in (9 \<le> n \<and> n \<le> 13) \<or> n = 32 \<or> n = 44)"

fun match_fields :: "nat \<Rightarrow> string \<Rightarrow> string list option" where
  "match_fields 0 s = Some []"
| "match_fields (Suc n) s =
     (let field = takeWhile is_digit s; rest = dropWhile is_digit s
      in (if field = [] then None
          else if n = 0 then Some [field]
          else if takeWhile is_sep rest = [] then None
          else (case match_fields n (dropWhile is_sep rest) of
                  None \<Rightarrow> None
                | Some others \<Rightarrow> Some (field # others))))"

definition info_parser_match :: "string \<Rightarrow> string list option" where
  "info_parser_match response = match_fields 6 response"

text \<open>The decimal value of a string of digits.\<close>

definition digits_value :: "string \<Rightarrow> int" where
  "digits_value ds = foldl (\<lambda>acc c. acc * 10 + (int (of_char c) - 48)) 0 ds"

text \<open>
  \<open>int()\<close> on a string of decimal digits. The interpreter converts at most
  \<open>sys.get_int_max_str_digits()\<close> digits, 4300 unless configured otherwise, and raises
  \<open>ValueError\<close> on a longer string, leading zeros included.
\<close>

definition max_str_digits :: nat where
  "max_str_digits = 4300"

definition py_int :: "string \<Rightarrow> error + int" where
  "py_int ds = (if length ds > max_str_digits then Inl ValueError else Inr (digits_value ds))"

text \<open>
  The body of a \<open>try\<close> with the handler \<open>except ValueError\<close> that assigns \<open>None\<close>: the
  value, \<open>None\<close> after a \<open>ValueError\<close>, and any other exception passed on.
\<close>

definition except_ValueError :: "error + 'a \<Rightarrow> error + 'a option" where
  "except_ValueError x =
     (case x of
        Inr v \<Rightarrow> Inr (Some v)
      | Inl ValueError \<Rightarrow> Inr None
      | Inl err \<Rightarrow> Inl err)"

text \<open>The expressions \<open>DeviceType(int(...))\<close>, \<open>DeviceMode(int(...))\<close>, \<open>DeviceState(int(...))\<close>.\<close>

definition DeviceType_of_group :: "string \<Rightarrow> error + DeviceType" where
  "DeviceType_of_group s = (case py_int s of Inl err \<Rightarrow> Inl err | Inr i \<Rightarrow> DeviceType_of_int i)"

definition DeviceMode_of_group :: "string \<Rightarrow> error + DeviceMode" where
  "DeviceMode_of_group s = (case py_int s of Inl err \<Rightarrow> Inl err | Inr i \<Rightarrow> DeviceMode_of_int i)"

definition DeviceState_of_group :: "string \<Rightarrow> error + DeviceState" where
  "DeviceState_of_group s = (case py_int s of Inl err \<Rightarrow> Inl err | Inr i \<Rightarrow> DeviceState_of_int i)"

text \<open>
  The validation of the six groups of a match and the construction of the record, for
  the address \<open>addr\<close> being polled, in the order of the source: the conversions of the
  type, the mode and the state stand inside a \<open>try\<close>, those of the group, the health and
  the time do not, so an exception of theirs leaves the method. The result is \<open>None\<close>
  when \<open>valid\<close> ends up false.
\<close>

definition validate_fields :: "int \<Rightarrow> string list \<Rightarrow> error + Device option" where
  "validate_fields addr groups =
     (case except_ValueError (DeviceType_of_group (groups ! 0)) of
        Inl err \<Rightarrow> Inl err
      | Inr device_type \<Rightarrow>
     (case py_int (groups ! 1) of
        Inl err \<Rightarrow> Inl err
      | Inr g \<Rightarrow>
     (let device_group = (if g < 0 \<or> g > 7 then None else Some g)
      in
     (case except_ValueError (DeviceMode_of_group (groups ! 2)) of
        Inl err \<Rightarrow> Inl err
      | Inr device_mode \<Rightarrow>
     (case except_ValueError (DeviceState_of_group (groups ! 3)) of
        Inl err \<Rightarrow> Inl err
      | Inr device_state \<Rightarrow>
     (case py_int (groups ! 4) of
        Inl err \<Rightarrow> Inl err
      | Inr h \<Rightarrow>
     (let device_health = (if h < 0 \<or> h > 255 then None else Some h)
      in
     (case py_int (groups ! 5) of
        Inl err \<Rightarrow> Inl err
      | Inr t \<Rightarrow>
     (let device_time = (if t < 0 then None else Some t)
      in Inr
        (case device_type of None \<Rightarrow> None | Some ty \<Rightarrow>
        (case device_group of None \<Rightarrow> None | Some gr \<Rightarrow>
        (case device_mode of None \<Rightarrow> None | Some mo \<Rightarrow>
        (case device_state of None \<Rightarrow> None | Some st \<Rightarrow>
        (case device_health of None \<Rightarrow> None | Some he \<Rightarrow>
        (case device_time of None \<Rightarrow> None | Some ti \<Rightarrow>
           Some \<lparr>dev_id = addr, dev_type = ty, dev_group = gr, dev_mode = mo,
                 dev_state = st, dev_health = he, dev_time = ti,
                 missing_in_action = False\<rparr>)))))))))))))))"

text \<open>
  The part of \<open>_process_query_response\<close> before the cursor moves. An exception leaves
  it before anything is assigned or emitted.
\<close>

definition interpret_response ::
  "device_manager \<Rightarrow> string \<Rightarrow> error + device_manager \<times> dm_signal list" where
  "interpret_response dm response =
     (if response = ''Ack 2''
      then (case devices dm (current_device dm) of
              None \<Rightarrow> Inr (dm, [])
            | Some device \<Rightarrow>
                (let device1 = device\<lparr>missing_in_action := True\<rparr>
                 in Inr (dm\<lparr>devices := (devices dm)(current_device dm \<mapsto> device1)\<rparr>,
                         [device_updated device1])))
      else (case info_parser_match response of
              None \<Rightarrow> Inr (dm, [])
            | Some groups \<Rightarrow>
                (case validate_fields (current_device dm) groups of
                   Inl err \<Rightarrow> Inl err
                 | Inr None \<Rightarrow> Inr (dm, [])
                 | Inr (Some device) \<Rightarrow>
                     Inr (dm\<lparr>devices := (devices dm)(current_device dm \<mapsto> device)\<rparr>,
                          [device_updated device]))))"

definition process_query_response :: "settings \<Rightarrow> device_manager \<Rightarrow> string \<Rightarrow> dm_result" where
  "process_query_response params dm response =
     (case interpret_response dm response of
        Inl err \<Rightarrow> (dm, [], [], Some err)
      | Inr (dm1, sigs1) \<Rightarrow>
          (let dm2 = dm1\<lparr>current_device := current_device dm1 + 1\<rparr>;
               dm3 = (if current_device dm2 > LAST_DEVICE
                      then dm2\<lparr>current_device := FIRST_DEVICE\<rparr> else dm2)
           in (if dm_enabled dm3
               then (let (dm4, cmds, sigs2, err) = query_next_device params dm3
                     in (dm4, cmds, sigs1 @ sigs2, err))
               else (dm3, [], sigs1, None))))"

definition dm_enable :: "settings \<Rightarrow> device_manager \<Rightarrow> dm_result" where
  "dm_enable params dm =
     (if dm_enabled dm then (dm, [], [], None)
      else query_next_device params (dm\<lparr>dm_enabled := True\<rparr>))"

definition dm_disable :: "device_manager \<Rightarrow> device_manager" where
  "dm_disable dm = dm\<lparr>dm_enabled := False\<rparr>"

definition dm_clear :: "device_manager \<Rightarrow> device_manager" where
  "dm_clear dm = dm\<lparr>devices := Map.empty, current_device := FIRST_DEVICE\<rparr>"

definition upload_settings :: "device_manager \<Rightarrow> device_manager \<times> dm_signal list" where
  "upload_settings dm = (dm\<lparr>upload := True\<rparr>, [upload_started])"

text \<open>\<open>set_mode\<close> changes nothing in the manager; it gives the command it sends, if any.\<close>

definition set_mode :: "device_manager \<Rightarrow> int \<Rightarrow> DeviceMode \<Rightarrow> command list" where
  "set_mode dm device_id mode =
     (if \<not> dm_enabled dm then []
      else [\<lparr>request = ''SetMode '' @ format_d device_id @ '', ''
                         @ format_d (DeviceMode_value mode) @ crlf,
             callback = Some process_set_mode_response_cb\<rparr>])"


section \<open>The program: the objects as \<open>main\<close> wires them\<close>

text \<open>
  \<open>main\<close> creates one serial port, one transport, one device manager and one game
  manager, and connects signals to slots; Qt calls the slots of a signal in the order in
  which they were connected. \<open>p_open\<close> is whether the serial port is open.
\<close>

record program =
  p_open :: bool
  p_transport :: command_transport
  p_devices :: device_manager
  p_game :: game_manager

definition program_init :: "int \<Rightarrow> program" where
  "program_init duration =
     \<lparr>p_open = False, p_transport = transport_init, p_devices = dm_init,
      p_game = game_init duration\<rparr>"

text \<open>
  The bound method that a queue entry holds, called with a response line at the clock
  reading \<open>now\<close>: the two managers afterwards, the commands the method passed to
  \<open>send_command\<close>, and the exception it raised, if any.
\<close>

definition invoke_callback ::
  "settings \<Rightarrow> callback \<Rightarrow> string \<Rightarrow> int \<Rightarrow> device_manager \<times> game_manager
   \<Rightarrow> (device_manager \<times> game_manager) \<times> command list \<times> error option" where
  "invoke_callback params cb response now mgrs =
     (let (dm, g) = mgrs
      in (case cb of
            process_query_response_cb \<Rightarrow>
              (let (dm1, cmds, sigs, err) = process_query_response params dm response
               in ((dm1, g), cmds, err))
          | process_set_mode_response_cb \<Rightarrow> ((dm, g), [], None)
          | process_reset_response_cb \<Rightarrow>
              (let (g1, cmds, sigs) = process_reset_response g response now
               in ((dm, g1), cmds, None))
          | process_start_response_cb \<Rightarrow>
              (let (g1, cmds, sigs) = process_start_response g response now
               in ((dm, g1), cmds, None))
          | process_stop_response_cb \<Rightarrow>
              (let (g1, cmds, sigs) = process_stop_response g response now
               in ((dm, g1), cmds, None))
          | process_pause_response_cb \<Rightarrow>
              (let (g1, cmds, sigs) = process_pause_response g response now
               in ((dm, g1), cmds, None))
          | process_unpause_response_cb \<Rightarrow>
              (let (g1, cmds, sigs) = process_unpause_response g response now
               in ((dm, g1), cmds, None))))"

text \<open>
  The callback that \<open>_handle_read\<close> is about to call and the response it passes, when it
  calls one: the transport is at work, a line can be read, it decodes, it is not blank
  after \<open>strip()\<close>, and the head of the queue holds a callback.
\<close>

definition read_target :: "string option \<Rightarrow> command_transport \<Rightarrow> (callback \<times> string) option" where
  "read_target line t =
     (if t_state t \<noteq> t_work then None
      else (case line of
              None \<Rightarrow> None
            | Some bs \<Rightarrow>
                (case decode_ascii bs of
                   Inl err \<Rightarrow> None
                 | Inr decoded \<Rightarrow>
                     (let response = py_strip decoded
                      in (if length response \<noteq> 0
                          then (case command_queue t of
                                  [] \<Rightarrow> None
                                | c # cs \<Rightarrow>
                                    (case callback c of
                                       None \<Rightarrow> None
                                     | Some cb \<Rightarrow> Some (cb, response)))
                          else None)))))"

text \<open>
  What happens to the program: the buttons of the window, a change of the mode box of a
  device in a table, the two timers, and the two signals of the serial port.
  \<open>connect_clicked\<close> says whether \<open>open()\<close> succeeds; it fails on a port that is open.
  The slots do not look at the buttons, so a click is taken whatever the window shows.
\<close>

datatype program_event =
    connect_clicked bool
  | disconnect_clicked
  | upload_clicked
  | reset_clicked
  | start_clicked
  | stop_clicked
  | pause_clicked
  | mode_changed int DeviceMode
  | tick_timeout
  | delay_timeout
  | bytes_written int
  | ready_read "string option"

text \<open>A slot of a manager that sends its commands through the transport.\<close>

definition game_slot :: "program \<Rightarrow> game_result \<Rightarrow> program" where
  "game_slot p res =
     (let (g1, cmds, sigs) = res
      in p\<lparr>p_game := g1, p_transport := fst (send_commands (p_transport p) cmds)\<rparr>)"

text \<open>
  The slots of \<open>connected\<close>, in order: \<open>command_transport.enable\<close>, \<open>device_manager.enable\<close>,
  \<open>game_manager.enable\<close>. An exception ends the emission.
\<close>

definition on_connected :: "settings \<Rightarrow> program \<Rightarrow> int \<Rightarrow> error + program" where
  "on_connected params p now =
     (case transport_enable (p_open p) (p_transport p) of
        Inl err \<Rightarrow> Inl err
      | Inr (t1, e1) \<Rightarrow>
          (let (dm1, cmds, sigs, err) = dm_enable params (p_devices p);
               t2 = fst (send_commands t1 cmds)
           in (case err of
                 Some e \<Rightarrow> Inl e
               | None \<Rightarrow>
                   Inr (game_slot (p\<lparr>p_transport := t2, p_devices := dm1\<rparr>)
                          (game_enable (p_game p) now)))))"

text \<open>
  The slots of \<open>disconnected\<close>, in order: \<open>command_transport.disable\<close>,
  \<open>device_manager.disable\<close>, \<open>game_manager.disable\<close>, \<open>command_transport.clear\<close>,
  \<open>device_manager.clear\<close>.
\<close>

definition on_disconnected :: "program \<Rightarrow> int \<Rightarrow> program" where
  "on_disconnected p now =
     (let t1 = fst (transport_disable (p_transport p));
          dm1 = dm_disable (p_devices p);
          g1 = fst (game_disable (p_game p) now);
          t2 = fst (transport_clear t1);
          dm2 = dm_clear dm1
      in p\<lparr>p_transport := t2, p_devices := dm2, p_game := g1\<rparr>)"

text \<open>
  \<open>readyRead\<close>: the callback runs inside \<open>_handle_read\<close>, between the read of the line and
  the assignment of \<open>_read_complete\<close>.
\<close>

definition on_ready_read :: "settings \<Rightarrow> program \<Rightarrow> string option \<Rightarrow> int \<Rightarrow> error + program" where
  "on_ready_read params p line now =
     (case read_target line (p_transport p) of
        None \<Rightarrow>
          (case handle_read line [] None (p_transport p) of
             Inl err \<Rightarrow> Inl err
           | Inr (t1, e1) \<Rightarrow> Inr (p\<lparr>p_transport := t1\<rparr>))
      | Some (cb, response) \<Rightarrow>
          (let ((dm1, g1), cmds, err) =
                 invoke_callback params cb response now (p_devices p, p_game p)
           in (case handle_read line cmds err (p_transport p) of
                 Inl e \<Rightarrow> Inl e
               | Inr (t1, e1) \<Rightarrow> Inr (p\<lparr>p_transport := t1, p_devices := dm1, p_game := g1\<rparr>))))"

fun program_step :: "settings \<Rightarrow> program \<Rightarrow> program_event \<times> int \<Rightarrow> error + program" where
  "program_step params p (connect_clicked ok, now) =
     (if \<not> ok \<or> p_open p then Inr p else on_connected params (p\<lparr>p_open := True\<rparr>) now)"
| "program_step params p (disconnect_clicked, now) = Inr (on_disconnected (p\<lparr>p_open := False\<rparr>) now)"
| "program_step params p (upload_clicked, now) =
     Inr (p\<lparr>p_devices := fst (upload_settings (p_devices p))\<rparr>)"
| "program_step params p (reset_clicked, now) = Inr (game_slot p (reset_game (p_game p)))"
| "program_step params p (start_clicked, now) = Inr (game_slot p (start_game (p_game p)))"
| "program_step params p (stop_clicked, now) = Inr (game_slot p (stop_game (p_game p)))"
| "program_step params p (pause_clicked, now) = Inr (game_slot p (pause_game (p_game p)))"
| "program_step params p (mode_changed device_id mode, now) =
     Inr (p\<lparr>p_transport :=
              fst (send_commands (p_transport p) (set_mode (p_devices p) device_id mode))\<rparr>)"
| "program_step params p (tick_timeout, now) =
     (if tick_timer (p_game p) then Inr (game_slot p (timer_callback (p_game p) now)) else Inr p)"
| "program_step params p (delay_timeout, now) =
     (case timer_timeout (p_open p) (p_transport p) of
        Inl err \<Rightarrow> Inl err
      | Inr (t1, e1) \<Rightarrow> Inr (p\<lparr>p_transport := t1\<rparr>))"
| "program_step params p (bytes_written n, now) =
     (case handle_write n (p_transport p) of
        Inl err \<Rightarrow> Inl err
      | Inr (t1, e1) \<Rightarrow> Inr (p\<lparr>p_transport := t1\<rparr>))"
| "program_step params p (ready_read line, now) = on_ready_read params p line now"

fun program_run :: "settings \<Rightarrow> program \<Rightarrow> (program_event \<times> int) list \<Rightarrow> error + program" where
  "program_run params p [] = Inr p"
| "program_run params p (e # es) =
     (case program_step params p e of
        Inl err \<Rightarrow> Inl err
      | Inr p1 \<Rightarrow> program_run params p1 es)"


section \<open>Scenarios used by the properties\<close>


text \<open>The six integers of a record, in the order of the groups of the pattern.\<close>

definition device_fields :: "Device \<Rightarrow> int list" where
  "device_fields d =
     [DeviceType_value (dev_type d), dev_group d, DeviceMode_value (dev_mode d),
      DeviceState_value (dev_state d), dev_health d, dev_time d]"

text \<open>Every run of separators is non-empty and made of characters of \<open>[\s,]\<close>.\<close>

definition valid_seps :: "string list \<Rightarrow> bool" where
  "valid_seps seps = list_all (\<lambda>s. s \<noteq> [] \<and> list_all is_sep s) seps"

text \<open>
  A registry that knows one device, at the address 1, with an upload pass armed and not
  yet begun; and a settings source whose dictionary holds a name that \<open>DeviceParam\<close>
  does not have between two that it has.
\<close>

definition demo_device :: Device where
  "demo_device = \<lparr>dev_id = 1, dev_type = tank, dev_group = 0, dev_mode = training,
     dev_state = operational, dev_health = 100, dev_time = 0, missing_in_action = False\<rparr>"

definition demo_settings :: settings where
  "demo_settings ty i = [(''DefaultHitCnt'', 3), (''Foo'', 1), (''Group'', 2)]"

definition demo_upload :: device_manager where
  "demo_upload = \<lparr>devices = [1 \<mapsto> demo_device], current_device = 1, upload = True,
     first_uploaded = None, dm_enabled = True\<rparr>"

text \<open>
  An unsigned decimal field that \<open>int()\<close> converts: a non-empty run of digits within the
  digit limit.
\<close>

definition is_field :: "string \<Rightarrow> bool" where
  "is_field g = (g \<noteq> [] \<and> list_all is_digit g \<and> length g \<le> max_str_digits)"

text \<open>The ranges of the six integers of a response: type, group, mode, state, health, time.\<close>

definition in_range :: "int list \<Rightarrow> bool" where
  "in_range vs =
     (0 \<le> vs ! 0 \<and> vs ! 0 \<le> 2 \<and> 0 \<le> vs ! 1 \<and> vs ! 1 \<le> 7 \<and> 0 \<le> vs ! 2 \<and> vs ! 2 \<le> 1
      \<and> 0 \<le> vs ! 3 \<and> vs ! 3 \<le> 5 \<and> 0 \<le> vs ! 4 \<and> vs ! 4 \<le> 255 \<and> 0 \<le> vs ! 5)"

text \<open>
  A settings file without parameters, two response lines as the serial port delivers
  them, and four runs of the program from its start, each event with the clock reading
  (milliseconds) at which it happens. The replies to \<open>GetInfo\<close> are the poller's traffic,
  which the queue interleaves with the commands of the session.

  \<^item> \<open>reset_in_flight\<close>: the port is connected and the reset button clicked; the transport
    works off \<open>Ping\<close> and \<open>GetInfo 1\<close>, writes \<open>Reset4Combat\<close> and waits for its reply.
  \<^item> \<open>game_running\<close>: the reset is acknowledged, the start button clicked and the start
    acknowledged at 1000.
  \<^item> \<open>game_paused_run\<close>: the pause button is clicked and the pause acknowledged at 4000.
  \<^item> \<open>resumed_once\<close>: the pause button, which the signal \<open>game_paused\<close> leaves enabled, is
    clicked twice before any reply; the first resumption is acknowledged at 9000 and
    the second command written. \<open>resumed_twice\<close>: its reply arrives at 9099.
\<close>

definition no_settings :: settings where
  "no_settings ty i = []"

definition ack0 :: "string option" where
  "ack0 = Some (''Ack 0'' @ crlf)"

definition ack2 :: "string option" where
  "ack2 = Some (''Ack 2'' @ crlf)"

definition reset_in_flight :: "(program_event \<times> int) list" where
  "reset_in_flight =
     [(connect_clicked True, 0), (reset_clicked, 5),
      (bytes_written 6, 6), (ready_read ack0, 8),
      (delay_timeout, 18), (bytes_written 11, 19), (ready_read ack2, 25),
      (delay_timeout, 35), (bytes_written 14, 36)]"

definition game_running :: "(program_event \<times> int) list" where
  "game_running =
     reset_in_flight @
     [(ready_read ack0, 40), (start_clicked, 45),
      (delay_timeout, 50), (bytes_written 11, 51), (ready_read ack2, 55),
      (delay_timeout, 65), (bytes_written 19, 66), (ready_read ack0, 1000)]"

definition game_paused_run :: "(program_event \<times> int) list" where
  "game_paused_run =
     game_running @
     [(delay_timeout, 1010), (bytes_written 11, 1011), (pause_clicked, 3900),
      (ready_read ack2, 3950),
      (delay_timeout, 3960), (bytes_written 19, 3961), (ready_read ack0, 4000)]"

definition resumed_once :: "(program_event \<times> int) list" where
  "resumed_once =
     game_paused_run @
     [(delay_timeout, 4010), (bytes_written 11, 4011),
      (pause_clicked, 5000), (pause_clicked, 5001), (ready_read ack2, 5050),
      (delay_timeout, 5060), (bytes_written 19, 5061), (ready_read ack0, 9000),
      (delay_timeout, 9010), (bytes_written 19, 9011)]"

definition resumed_twice :: "(program_event \<times> int) list" where
  "resumed_twice = resumed_once @ [(ready_read ack0, 9099)]"

text \<open>
  The program as the slots of \<open>disconnected\<close> leave it: the port closed, the transport
  disabled with its timer stopped and its queue empty, both managers disabled, the tick
  timer stopped.
\<close>

definition disconnected :: "program \<Rightarrow> bool" where
  "disconnected p =
     (\<not> p_open p \<and> t_state (p_transport p) = t_disabled \<and> \<not> delay_timer (p_transport p)
      \<and> command_queue (p_transport p) = [] \<and> \<not> dm_enabled (p_devices p)
      \<and> g_state (p_game p) = g_disabled \<and> \<not> tick_timer (p_game p))"

text \<open>The two signals of the serial port: a completion of a write or of a read.\<close>

fun is_completion :: "transport_event \<Rightarrow> bool" where
  "is_completion (te_bytes_written n) = True"
| "is_completion (te_ready_read line sends raises) = True"
| "is_completion ev = False"



text \<open>
  What the poll step pushes to the address \<open>a\<close> while an upload pass is armed, given the
  registry: nothing for an unknown or missing device, otherwise what the loop over the
  configured parameters sends, with the exception that ended it, if one did.
\<close>

definition device_pushes ::
  "settings \<Rightarrow> (int \<rightharpoonup> Device) \<Rightarrow> int \<Rightarrow> command list \<times> error option" where
  "device_pushes params reg a =
     (case reg a of
        None \<Rightarrow> ([], None)
      | Some device \<Rightarrow>
          (if \<not> missing_in_action device
           then send_params a (params (dev_type device) (dev_id device))
           else ([], None)))"














section \<open>Properties of the session controller\<close>

lemma stop_timer_reset:
  "stop_timer True g now =
     (g\<lparr>tick_timer := False, prev_elapsed_time := 0, elapsed_timer := None\<rparr>, [time_sig 0])"
  by (simp add: stop_timer_def refresh_time_def elapsed_ms_def)

lemma stop_timer_fold:
  "stop_timer False g now =
     (g\<lparr>tick_timer := False, prev_elapsed_time := elapsed_ms g now, elapsed_timer := None\<rparr>,
      [time_sig (elapsed_ms g now div 1000)])"
  by (cases "elapsed_timer g") (simp_all add: stop_timer_def refresh_time_def elapsed_ms_def Let_def)

lemma start_timer_reset:
  "start_timer True g now =
     (g\<lparr>prev_elapsed_time := 0, elapsed_timer := Some now, tick_timer := True\<rparr>,
      [time_sig (elapsed_ms (g\<lparr>prev_elapsed_time := 0\<rparr>) now div 1000)])"
  by (simp add: start_timer_def refresh_time_def Let_def)

lemma start_timer_keep:
  "start_timer False g now =
     (g\<lparr>elapsed_timer := Some now, tick_timer := True\<rparr>, [time_sig (elapsed_ms g now div 1000)])"
  by (simp add: start_timer_def refresh_time_def Let_def)

lemmas response_defs =
  process_reset_response_def process_start_response_def process_stop_response_def
  process_pause_response_def process_unpause_response_def

lemmas timer_eqs = stop_timer_reset stop_timer_fold start_timer_reset start_timer_keep

text \<open>
  C4 as the specification states it fails: in the state \<open>running\<close> the request is not
  rejected, the command \<open>Reset4Combat\<close> is sent.
\<close>

theorem reset_game_running_counterexample:
  "g_state ((game_init 600)\<lparr>g_state := g_running\<rparr>) = g_running
   \<and> fst (snd (reset_game ((game_init 600)\<lparr>g_state := g_running\<rparr>))) = [reset_command]"
  by (simp add: reset_game_def game_init_def)

text \<open>
  C4, amended: \<open>reset_game\<close> sends \<open>Reset4Combat\<close> in every state but \<open>disabled\<close>, where it
  sends nothing, and never changes the session itself. On the acknowledgment \<open>Ack 0\<close>
  the state becomes \<open>ready\<close>, the stopwatch is invalidated and the elapsed time is zero
  at every later clock reading; on any other response the session is unchanged and the
  failure is reported.
\<close>

theorem reset_game_unless_disabled:
  "reset_game g = (g, (if g_state g = g_disabled then [] else [reset_command]), [])
   \<and> process_reset_response g response now =
       (if response = ''Ack 0''
        then (g\<lparr>tick_timer := False, prev_elapsed_time := 0, elapsed_timer := None,
                g_state := g_ready\<rparr>, [], [time_sig 0, game_resetted])
        else (g, [], [message_sig reset_failed]))
   \<and> elapsed_ms (fst (process_reset_response g ''Ack 0'' now)) t = 0"
  by (simp add: reset_game_def process_reset_response_def elapsed_ms_def stop_timer_reset)

section \<open>Properties of the device manager\<close>

subsection \<open>Digits, separators and the pattern\<close>





lemma digits_value_snoc: "digits_value (xs @ [c]) = digits_value xs * 10 + (int (of_char c) - 48)"
  by (simp add: digits_value_def)


lemma digits_value_nonneg: "list_all is_digit ds \<Longrightarrow> 0 \<le> digits_value ds"
proof (induction ds rule: rev_induct)
  case Nil
  show ?case by (simp add: digits_value_def)
next
  case (snoc c ds)
  then have "0 \<le> digits_value ds" and "is_digit c" by simp_all
  then show ?case by (simp add: digits_value_snoc is_digit_def Let_def)
qed

lemma span_prefix:
  "list_all P ds \<Longrightarrow> rest = [] \<or> \<not> P (hd rest) \<Longrightarrow>
   takeWhile P (ds @ rest) = ds \<and> dropWhile P (ds @ rest) = rest"
  by (induction ds) (auto simp add: takeWhile_eq_Nil_iff dropWhile_eq_self_iff neq_Nil_conv)

lemma digit_not_sep: "is_digit c \<Longrightarrow> \<not> is_sep c"
  by (auto simp add: is_digit_def is_sep_def Let_def)

lemma sep_not_digit: "is_sep c \<Longrightarrow> \<not> is_digit c"
  using digit_not_sep by blast





lemma match_fields_last:
  assumes "list_all is_digit f" and "f \<noteq> []"
  shows "match_fields (Suc 0) f = Some [f]"
proof -
  have tw: "takeWhile is_digit f = f" using assms(1) by (simp add: list_all_iff)
  show ?thesis using assms(2) by (simp add: Let_def tw)
qed

lemma match_fields_step:
  assumes "list_all is_digit f" and "f \<noteq> []" and "s \<noteq> []" and "list_all is_sep s"
    and "rest \<noteq> []" and "is_digit (hd rest)" and "n \<noteq> 0"
  shows "match_fields (Suc n) (f @ s @ rest) =
    (case match_fields n rest of None \<Rightarrow> None | Some others \<Rightarrow> Some (f # others))"
proof -
  have hs: "is_sep (hd s)" using assms(3,4) by (cases s) simp_all
  have a: "takeWhile is_digit (f @ s @ rest) = f \<and> dropWhile is_digit (f @ s @ rest) = s @ rest"
    using assms(1,3) hs by (intro span_prefix) (simp_all add: sep_not_digit hd_append)
  have b: "takeWhile is_sep (s @ rest) = s \<and> dropWhile is_sep (s @ rest) = rest"
    using assms(4,5,6) by (intro span_prefix) (simp_all add: digit_not_sep)
  show ?thesis using a b assms(2,3,7) by (simp add: Let_def)
qed


subsection \<open>The validation of a match\<close>

lemma DeviceType_of_int_value: "DeviceType_of_int i = Inr ty \<Longrightarrow> DeviceType_value ty = i"
  by (auto simp add: DeviceType_of_int_def split: if_splits)

lemma DeviceMode_of_int_value: "DeviceMode_of_int i = Inr mo \<Longrightarrow> DeviceMode_value mo = i"
  by (auto simp add: DeviceMode_of_int_def split: if_splits)

lemma DeviceState_of_int_value: "DeviceState_of_int i = Inr st \<Longrightarrow> DeviceState_value st = i"
  by (auto simp add: DeviceState_of_int_def split: if_splits)

lemma DeviceType_of_int_range: "(\<exists>ty. DeviceType_of_int i = Inr ty) = (0 \<le> i \<and> i \<le> 2)"
  by (auto simp add: DeviceType_of_int_def)

lemma DeviceMode_of_int_range: "(\<exists>mo. DeviceMode_of_int i = Inr mo) = (0 \<le> i \<and> i \<le> 1)"
  by (auto simp add: DeviceMode_of_int_def)

lemma DeviceState_of_int_range: "(\<exists>st. DeviceState_of_int i = Inr st) = (-1 \<le> i \<and> i \<le> 5)"
  by (auto simp add: DeviceState_of_int_def)

lemma DeviceType_of_int_error: "DeviceType_of_int i = Inl e \<Longrightarrow> e = ValueError"
  by (auto simp add: DeviceType_of_int_def split: if_splits)

lemma DeviceMode_of_int_error: "DeviceMode_of_int i = Inl e \<Longrightarrow> e = ValueError"
  by (auto simp add: DeviceMode_of_int_def split: if_splits)

lemma DeviceState_of_int_error: "DeviceState_of_int i = Inl e \<Longrightarrow> e = ValueError"
  by (auto simp add: DeviceState_of_int_def split: if_splits)

lemma py_int_short: "length ds \<le> max_str_digits \<Longrightarrow> py_int ds = Inr (digits_value ds)"
  by (simp add: py_int_def)

lemma py_int_long: "max_str_digits < length ds \<Longrightarrow> py_int ds = Inl ValueError"
  by (simp add: py_int_def)

text \<open>The three conversions under \<open>try\<close> never let an exception through.\<close>

lemma except_type:
  "except_ValueError (DeviceType_of_group s) =
     Inr (if length s \<le> max_str_digits
          then (case DeviceType_of_int (digits_value s) of Inr v \<Rightarrow> Some v | Inl e \<Rightarrow> None)
          else None)"
  by (auto simp add: except_ValueError_def DeviceType_of_group_def py_int_def
      dest: DeviceType_of_int_error split: sum.splits)

lemma except_mode:
  "except_ValueError (DeviceMode_of_group s) =
     Inr (if length s \<le> max_str_digits
          then (case DeviceMode_of_int (digits_value s) of Inr v \<Rightarrow> Some v | Inl e \<Rightarrow> None)
          else None)"
  by (auto simp add: except_ValueError_def DeviceMode_of_group_def py_int_def
      dest: DeviceMode_of_int_error split: sum.splits)

lemma except_state:
  "except_ValueError (DeviceState_of_group s) =
     Inr (if length s \<le> max_str_digits
          then (case DeviceState_of_int (digits_value s) of Inr v \<Rightarrow> Some v | Inl e \<Rightarrow> None)
          else None)"
  by (auto simp add: except_ValueError_def DeviceState_of_group_def py_int_def
      dest: DeviceState_of_int_error split: sum.splits)

lemmas except_eqs = except_type except_mode except_state

text \<open>The only exception of the validation is the \<open>ValueError\<close> of an unguarded \<open>int()\<close>.\<close>

lemma validate_fields_raises:
  "(\<exists>e. validate_fields a gs = Inl e) =
     (max_str_digits < length (gs ! 1) \<or> max_str_digits < length (gs ! 4)
      \<or> max_str_digits < length (gs ! 5))"
  by (auto simp add: validate_fields_def except_eqs py_int_def Let_def split: sum.splits)

lemma validate_fields_error: "validate_fields a gs = Inl e \<Longrightarrow> e = ValueError"
  by (auto simp add: validate_fields_def except_eqs py_int_def Let_def split: sum.splits if_splits)

text \<open>What an accepted record says about the six groups.\<close>

lemma validate_fields_Some:
  assumes "validate_fields a gs = Inr (Some d)"
  shows "dev_id d = a \<and> \<not> missing_in_action d
    \<and> (\<forall>i<6. length (gs ! i) \<le> max_str_digits)
    \<and> DeviceType_of_int (digits_value (gs ! 0)) = Inr (dev_type d)
    \<and> dev_group d = digits_value (gs ! 1) \<and> 0 \<le> dev_group d \<and> dev_group d \<le> 7
    \<and> DeviceMode_of_int (digits_value (gs ! 2)) = Inr (dev_mode d)
    \<and> DeviceState_of_int (digits_value (gs ! 3)) = Inr (dev_state d)
    \<and> dev_health d = digits_value (gs ! 4) \<and> 0 \<le> dev_health d \<and> dev_health d \<le> 255
    \<and> dev_time d = digits_value (gs ! 5) \<and> 0 \<le> dev_time d"
proof -
  have six: "\<And>P. (\<forall>i<6. P (i::nat)) = (P 0 \<and> P 1 \<and> P 2 \<and> P 3 \<and> P 4 \<and> P 5)"
  proof -
    fix P :: "nat \<Rightarrow> bool"
    have "\<And>i::nat. i < 6 \<longleftrightarrow> i = 0 \<or> i = 1 \<or> i = 2 \<or> i = 3 \<or> i = 4 \<or> i = 5" by arith
    then show "(\<forall>i<6. P i) = (P 0 \<and> P 1 \<and> P 2 \<and> P 3 \<and> P 4 \<and> P 5)" by auto
  qed
  show ?thesis
    using assms unfolding six
    by (auto simp add: validate_fields_def except_eqs py_int_def Let_def
        split: sum.splits option.splits if_splits)
qed

text \<open>The record that the six groups give when each is in its range.\<close>

lemma validate_fields_build:
  assumes "\<forall>i<6. length (gs ! i) \<le> max_str_digits"
    and "DeviceType_of_int (digits_value (gs ! 0)) = Inr ty"
    and "0 \<le> digits_value (gs ! 1)" and "digits_value (gs ! 1) \<le> 7"
    and "DeviceMode_of_int (digits_value (gs ! 2)) = Inr mo"
    and "DeviceState_of_int (digits_value (gs ! 3)) = Inr st"
    and "0 \<le> digits_value (gs ! 4)" and "digits_value (gs ! 4) \<le> 255"
    and "0 \<le> digits_value (gs ! 5)"
  shows "validate_fields a gs =
    Inr (Some \<lparr>dev_id = a, dev_type = ty, dev_group = digits_value (gs ! 1), dev_mode = mo,
          dev_state = st, dev_health = digits_value (gs ! 4), dev_time = digits_value (gs ! 5),
          missing_in_action = False\<rparr>)"
proof -
  have l: "length (gs ! 0) \<le> max_str_digits" "length (gs ! 1) \<le> max_str_digits"
    "length (gs ! 2) \<le> max_str_digits" "length (gs ! 3) \<le> max_str_digits"
    "length (gs ! 4) \<le> max_str_digits" "length (gs ! 5) \<le> max_str_digits"
    using assms(1) by simp_all
  show ?thesis
    using assms(2-) l by (simp add: validate_fields_def except_eqs py_int_short Let_def)
qed

lemma validate_fields_None:
  assumes "\<forall>i<6. length (gs ! i) \<le> max_str_digits"
    and "\<not> (0 \<le> digits_value (gs ! 0) \<and> digits_value (gs ! 0) \<le> 2
           \<and> 0 \<le> digits_value (gs ! 1) \<and> digits_value (gs ! 1) \<le> 7
           \<and> 0 \<le> digits_value (gs ! 2) \<and> digits_value (gs ! 2) \<le> 1
           \<and> -1 \<le> digits_value (gs ! 3) \<and> digits_value (gs ! 3) \<le> 5
           \<and> 0 \<le> digits_value (gs ! 4) \<and> digits_value (gs ! 4) \<le> 255
           \<and> 0 \<le> digits_value (gs ! 5))"
  shows "validate_fields a gs = Inr None"
proof -
  have l: "\<not> max_str_digits < length (gs ! 1)" "\<not> max_str_digits < length (gs ! 4)"
    "\<not> max_str_digits < length (gs ! 5)"
    using assms(1) by (simp_all add: not_less)
  then have "\<not> (\<exists>e. validate_fields a gs = Inl e)"
    unfolding validate_fields_raises by simp
  then obtain res where r: "validate_fields a gs = Inr res"
    by (cases "validate_fields a gs") auto
  show ?thesis
  proof (cases res)
    case None
    with r show ?thesis by simp
  next
    case (Some d)
    note v = validate_fields_Some [OF r [unfolded Some]]
    have "0 \<le> digits_value (gs ! 0) \<and> digits_value (gs ! 0) \<le> 2"
      using v DeviceType_of_int_range [of "digits_value (gs ! 0)"] by blast
    moreover have "0 \<le> digits_value (gs ! 2) \<and> digits_value (gs ! 2) \<le> 1"
      using v DeviceMode_of_int_range [of "digits_value (gs ! 2)"] by blast
    moreover have "-1 \<le> digits_value (gs ! 3) \<and> digits_value (gs ! 3) \<le> 5"
      using v DeviceState_of_int_range [of "digits_value (gs ! 3)"] by blast
    ultimately show ?thesis using v assms(2) by simp
  qed
qed


text \<open>Every group of a match is a non-empty run of digits.\<close>

lemma match_fields_digits:
  "match_fields n s = Some gs \<Longrightarrow>
   length gs = n \<and> (\<forall>g\<in>set gs. g \<noteq> [] \<and> list_all is_digit g)"
proof (induction n arbitrary: s gs)
  case 0
  then show ?case by simp
next
  case (Suc n)
  let ?field = "takeWhile is_digit s"
  let ?rest = "dropWhile is_digit s"
  have fd: "list_all is_digit ?field"
    by (simp add: list_all_iff) (meson set_takeWhileD)
  from Suc.prems have ne: "?field \<noteq> []"
    by (auto simp add: Let_def split: if_splits)
  show ?case
  proof (cases "n = 0")
    case True
    with Suc.prems ne have "gs = [?field]"
      by (auto simp add: Let_def split: if_splits)
    with True ne fd show ?thesis by simp
  next
    case False
    with Suc.prems ne obtain others where
      o: "match_fields n (dropWhile is_sep ?rest) = Some others" and g: "gs = ?field # others"
      by (auto simp add: Let_def split: if_splits option.splits)
    from Suc.IH [OF o] g ne fd show ?thesis by simp
  qed
qed

lemma info_parser_match_nonneg:
  assumes "info_parser_match r = Some gs" and "i < 6"
  shows "0 \<le> digits_value (gs ! i)"
proof -
  from assms(1) have "length gs = 6 \<and> (\<forall>g\<in>set gs. g \<noteq> [] \<and> list_all is_digit g)"
    unfolding info_parser_match_def by (rule match_fields_digits)
  with assms(2) have "list_all is_digit (gs ! i)" by simp
  then show ?thesis by (rule digits_value_nonneg)
qed


subsection \<open>Responses to the query\<close>

lemma query_next_device_devices: "devices (fst (query_next_device params dm)) = devices dm"
  by (simp add: query_next_device_def Let_def split: option.splits prod.splits)

lemma process_query_response_devices:
  "devices (fst (process_query_response params dm r)) =
     (case interpret_response dm r of Inl e \<Rightarrow> devices dm | Inr (dm1, sigs1) \<Rightarrow> devices dm1)"
proof (cases "interpret_response dm r")
  case (Inl e)
  then show ?thesis by (simp add: process_query_response_def)
next
  case (Inr res)
  obtain dm1 sigs1 where res: "res = (dm1, sigs1)" by (cases res)
  note i = Inr [unfolded res]
  let ?dm2 = "dm1\<lparr>current_device := current_device dm1 + 1\<rparr>"
  let ?dm3 = "(if current_device ?dm2 > LAST_DEVICE
               then ?dm2\<lparr>current_device := FIRST_DEVICE\<rparr> else ?dm2)"
  have d3: "devices ?dm3 = devices dm1" by simp
  show ?thesis
  proof (cases "dm_enabled ?dm3")
    case True
    obtain dm4 cmds sigs2 err where q: "query_next_device params ?dm3 = (dm4, cmds, sigs2, err)"
      by (cases "query_next_device params ?dm3")
    have "devices dm4 = devices ?dm3" using query_next_device_devices [of params ?dm3] q by simp
    with True i q d3 show ?thesis by (simp add: process_query_response_def Let_def)
  next
    case False
    with i d3 show ?thesis by (simp add: process_query_response_def Let_def)
  qed
qed

text \<open>
  C6: the response \<open>Ack 2\<close> for an address that has a record changes only
  \<open>missing_in_action\<close> of that record, to true; every other field of the record and
  every other record stay as they were. When the address has no record, the registry is
  unchanged and no record is created.
\<close>

theorem negative_ack_marks_missing:
  "devices (fst (process_query_response params dm ''Ack 2'')) =
     (case devices dm (current_device dm) of
        None \<Rightarrow> devices dm
      | Some d \<Rightarrow> (devices dm)(current_device dm \<mapsto> d\<lparr>missing_in_action := True\<rparr>))"
  by (simp add: process_query_response_devices interpret_response_def Let_def split: option.splits)

lemma lookup_foo: "lookup_param_id ''Foo'' = Inl KeyError"
  by (simp add: lookup_param_id_def DeviceParam_by_name_def)

lemma lookup_default_hit_cnt: "lookup_param_id ''DefaultHitCnt'' = Inr (Some 1)"
  by (simp add: lookup_param_id_def DeviceParam_by_name_def)

lemma demo_query:
  "query_next_device demo_settings demo_upload =
     (demo_upload\<lparr>first_uploaded := Some 1\<rparr>,
      [getinfo_command 1, setparameter_command 1 1 3], [], Some KeyError)"
  by (simp add: query_next_device_def demo_upload_def demo_settings_def demo_device_def
      lookup_foo lookup_default_hit_cnt Let_def)

text \<open>
  C3: a name that is not a member of \<open>DeviceParam\<close> raises \<open>KeyError\<close>, which the handler
  for \<open>ValueError\<close> does not catch. With the settings \<open>DefaultHitCnt\<close>, \<open>Foo\<close>, \<open>Group\<close>
  for a known, present device the poll step sends the query and the first parameter,
  then ends with \<open>KeyError\<close>: the name is not skipped and \<open>Group\<close> is never sent. The same
  happens when the step is reached from the response callback.
\<close>

theorem unrecognized_key_raises:
  "DeviceParam_by_name ''Foo'' = Inl KeyError
   \<and> query_next_device demo_settings demo_upload =
       (demo_upload\<lparr>first_uploaded := Some 1\<rparr>,
        [getinfo_command 1, setparameter_command 1 1 3], [], Some KeyError)
   \<and> snd (snd (snd (process_query_response demo_settings
        (demo_upload\<lparr>current_device := 31\<rparr>) ''Ack 2''))) = Some KeyError"
proof -
  have a: "DeviceParam_by_name ''Foo'' = Inl KeyError"
    by (simp add: DeviceParam_by_name_def)
  have i: "interpret_response (demo_upload\<lparr>current_device := 31\<rparr>) ''Ack 2''
             = Inr (demo_upload\<lparr>current_device := 31\<rparr>, [])"
    by (simp add: interpret_response_def demo_upload_def)
  have e: "demo_upload\<lparr>current_device := FIRST_DEVICE\<rparr> = demo_upload"
    by (simp add: demo_upload_def FIRST_DEVICE_def)
  have en: "dm_enabled demo_upload" by (simp add: demo_upload_def)
  have c: "snd (snd (snd (process_query_response demo_settings
        (demo_upload\<lparr>current_device := 31\<rparr>) ''Ack 2''))) = Some KeyError"
    by (simp add: process_query_response_def i Let_def LAST_DEVICE_def e en demo_query)
  from a demo_query c show ?thesis by simp
qed

lemma digits_prefix_hd:
  "g \<noteq> [] \<Longrightarrow> list_all is_digit g \<Longrightarrow> g @ x \<noteq> [] \<and> is_digit (hd (g @ x))"
  by (cases g) simp_all

lemma six_eq: "(6::nat) = Suc (Suc (Suc (Suc (Suc (Suc 0)))))"
  by simp

text \<open>Six runs of digits with runs of separators between them match, group by group.\<close>

lemma match_six_fields:
  assumes f: "list_all (\<lambda>g. g \<noteq> [] \<and> list_all is_digit g) [f0, f1, f2, f3, f4, f5]"
    and s: "valid_seps [s1, s2, s3, s4, s5]"
  shows "info_parser_match (f0 @ s1 @ f1 @ s2 @ f2 @ s3 @ f3 @ s4 @ f4 @ s5 @ f5)
           = Some [f0, f1, f2, f3, f4, f5]"
proof -
  from f have f0: "f0 \<noteq> []" "list_all is_digit f0" and f1: "f1 \<noteq> []" "list_all is_digit f1"
    and f2: "f2 \<noteq> []" "list_all is_digit f2" and f3: "f3 \<noteq> []" "list_all is_digit f3"
    and f4: "f4 \<noteq> []" "list_all is_digit f4" and f5: "f5 \<noteq> []" "list_all is_digit f5"
    by simp_all
  from s have s1: "s1 \<noteq> []" "list_all is_sep s1" and s2: "s2 \<noteq> []" "list_all is_sep s2"
    and s3: "s3 \<noteq> []" "list_all is_sep s3" and s4: "s4 \<noteq> []" "list_all is_sep s4"
    and s5: "s5 \<noteq> []" "list_all is_sep s5"
    by (simp_all add: valid_seps_def)
  have m5: "match_fields (Suc 0) f5 = Some [f5]"
    by (rule match_fields_last [OF f5(2,1)])
  have h5: "f5 \<noteq> [] \<and> is_digit (hd f5)"
    using digits_prefix_hd [OF f5, of "[]"] by simp
  have m4: "match_fields (Suc (Suc 0)) (f4 @ s5 @ f5) = Some [f4, f5]"
    using match_fields_step [OF f4(2,1) s5 h5 [THEN conjunct1] h5 [THEN conjunct2], of "Suc 0"] m5
    by (simp del: match_fields.simps)
  note h4 = digits_prefix_hd [OF f4, of "s5 @ f5"]
  have m3: "match_fields (Suc (Suc (Suc 0))) (f3 @ s4 @ f4 @ s5 @ f5) = Some [f3, f4, f5]"
    using match_fields_step [OF f3(2,1) s4 h4 [THEN conjunct1] h4 [THEN conjunct2],
        of "Suc (Suc 0)"] m4
    by (simp del: match_fields.simps)
  note h3 = digits_prefix_hd [OF f3, of "s4 @ f4 @ s5 @ f5"]
  have m2: "match_fields (Suc (Suc (Suc (Suc 0)))) (f2 @ s3 @ f3 @ s4 @ f4 @ s5 @ f5)
      = Some [f2, f3, f4, f5]"
    using match_fields_step [OF f2(2,1) s3 h3 [THEN conjunct1] h3 [THEN conjunct2],
        of "Suc (Suc (Suc 0))"] m3
    by (simp del: match_fields.simps)
  note h2 = digits_prefix_hd [OF f2, of "s3 @ f3 @ s4 @ f4 @ s5 @ f5"]
  have m1: "match_fields (Suc (Suc (Suc (Suc (Suc 0))))) (f1 @ s2 @ f2 @ s3 @ f3 @ s4 @ f4 @ s5 @ f5)
      = Some [f1, f2, f3, f4, f5]"
    using match_fields_step [OF f1(2,1) s2 h2 [THEN conjunct1] h2 [THEN conjunct2],
        of "Suc (Suc (Suc (Suc 0)))"] m2
    by (simp del: match_fields.simps)
  note h1 = digits_prefix_hd [OF f1, of "s2 @ f2 @ s3 @ f3 @ s4 @ f4 @ s5 @ f5"]
  have m0: "match_fields (Suc (Suc (Suc (Suc (Suc (Suc 0))))))
      (f0 @ s1 @ f1 @ s2 @ f2 @ s3 @ f3 @ s4 @ f4 @ s5 @ f5) = Some [f0, f1, f2, f3, f4, f5]"
    using match_fields_step [OF f0(2,1) s1 h1 [THEN conjunct1] h1 [THEN conjunct2],
        of "Suc (Suc (Suc (Suc (Suc 0))))"] m1
    by (simp del: match_fields.simps)
  show ?thesis
    unfolding info_parser_match_def six_eq by (rule m0)
qed

lemma digits_not_ack:
  assumes "g \<noteq> []" and "list_all is_digit g"
  shows "g @ x \<noteq> ''Ack 2''"
proof
  assume e: "g @ x = ''Ack 2''"
  have "is_digit (hd (g @ x))" using digits_prefix_hd [OF assms] by simp
  with e show False by (simp add: is_digit_def)
qed

lemma interpret_match:
  assumes "r \<noteq> ''Ack 2''" and "info_parser_match r = Some gs"
  shows "interpret_response dm r =
    (case validate_fields (current_device dm) gs of
       Inl err \<Rightarrow> Inl err
     | Inr None \<Rightarrow> Inr (dm, [])
     | Inr (Some device) \<Rightarrow>
         Inr (dm\<lparr>devices := (devices dm)(current_device dm \<mapsto> device)\<rparr>, [device_updated device]))"
  using assms by (simp add: interpret_response_def)

lemma device_fields_of_validated:
  assumes "validate_fields a gs = Inr (Some d)"
  shows "device_fields d = map (\<lambda>i. digits_value (gs ! i)) [0, 1, 2, 3, 4, 5]"
  using validate_fields_Some [OF assms]
  by (simp add: device_fields_def DeviceType_of_int_value DeviceMode_of_int_value
      DeviceState_of_int_value)

lemma validate_fields_accept:
  assumes "\<forall>i<6. length (gs ! i) \<le> max_str_digits"
    and "in_range (map (\<lambda>i. digits_value (gs ! i)) [0, 1, 2, 3, 4, 5])"
  shows "\<exists>d. validate_fields a gs = Inr (Some d)"
proof -
  from assms(2) have r: "0 \<le> digits_value (gs ! 0)" "digits_value (gs ! 0) \<le> 2"
    "0 \<le> digits_value (gs ! 1)" "digits_value (gs ! 1) \<le> 7"
    "0 \<le> digits_value (gs ! 2)" "digits_value (gs ! 2) \<le> 1"
    "0 \<le> digits_value (gs ! 3)" "digits_value (gs ! 3) \<le> 5"
    "0 \<le> digits_value (gs ! 4)" "digits_value (gs ! 4) \<le> 255"
    "0 \<le> digits_value (gs ! 5)"
    by (simp_all add: in_range_def)
  obtain ty where ty: "DeviceType_of_int (digits_value (gs ! 0)) = Inr ty"
    using DeviceType_of_int_range [of "digits_value (gs ! 0)"] r by blast
  obtain mo where mo: "DeviceMode_of_int (digits_value (gs ! 2)) = Inr mo"
    using DeviceMode_of_int_range [of "digits_value (gs ! 2)"] r by blast
  obtain st where st: "DeviceState_of_int (digits_value (gs ! 3)) = Inr st"
    using DeviceState_of_int_range [of "digits_value (gs ! 3)"] r by force
  from validate_fields_build [OF assms(1) ty r(3,4) mo st r(9,10,11), of a]
  show ?thesis by blast
qed

lemma validate_fields_reject:
  assumes "\<forall>i<6. length (gs ! i) \<le> max_str_digits"
    and "\<forall>i<6. 0 \<le> digits_value (gs ! i)"
    and "\<not> in_range (map (\<lambda>i. digits_value (gs ! i)) [0, 1, 2, 3, 4, 5])"
  shows "validate_fields a gs = Inr None"
proof -
  have n: "0 \<le> digits_value (gs ! 0)" "0 \<le> digits_value (gs ! 1)" "0 \<le> digits_value (gs ! 2)"
    "0 \<le> digits_value (gs ! 3)" "0 \<le> digits_value (gs ! 4)" "0 \<le> digits_value (gs ! 5)"
    using assms(2) by simp_all
  from assms(3) n have "\<not> (0 \<le> digits_value (gs ! 0) \<and> digits_value (gs ! 0) \<le> 2
           \<and> 0 \<le> digits_value (gs ! 1) \<and> digits_value (gs ! 1) \<le> 7
           \<and> 0 \<le> digits_value (gs ! 2) \<and> digits_value (gs ! 2) \<le> 1
           \<and> -1 \<le> digits_value (gs ! 3) \<and> digits_value (gs ! 3) \<le> 5
           \<and> 0 \<le> digits_value (gs ! 4) \<and> digits_value (gs ! 4) \<le> 255
           \<and> 0 \<le> digits_value (gs ! 5))"
    by (simp add: in_range_def)
  then show ?thesis by (rule validate_fields_None [OF assms(1)])
qed

text \<open>An unguarded \<open>int()\<close> on a field beyond the digit limit ends the callback.\<close>

lemma overlong_time_raises:
  assumes f: "list_all (\<lambda>g. g \<noteq> [] \<and> list_all is_digit g) [f0, f1, f2, f3, f4, f5]"
    and s: "valid_seps [s1, s2, s3, s4, s5]"
    and l: "max_str_digits < length f5"
  shows "interpret_response dm (f0 @ s1 @ f1 @ s2 @ f2 @ s3 @ f3 @ s4 @ f4 @ s5 @ f5)
           = Inl ValueError"
proof -
  let ?r = "f0 @ s1 @ f1 @ s2 @ f2 @ s3 @ f3 @ s4 @ f4 @ s5 @ f5"
  from f have f0: "f0 \<noteq> []" "list_all is_digit f0" by simp_all
  have n: "?r \<noteq> ''Ack 2''" by (rule digits_not_ack [OF f0])
  note m = match_six_fields [OF f s]
  have "\<exists>e. validate_fields (current_device dm) [f0, f1, f2, f3, f4, f5] = Inl e"
    unfolding validate_fields_raises using l by simp
  then obtain e where e: "validate_fields (current_device dm) [f0, f1, f2, f3, f4, f5] = Inl e" ..
  from validate_fields_error [OF e] e
  have "validate_fields (current_device dm) [f0, f1, f2, f3, f4, f5] = Inl ValueError" by simp
  then show ?thesis unfolding interpret_match [OF n m] by simp
qed

lemma digits_value_zeros: "digits_value (replicate n CHR ''0'') = 0"
proof (induction n)
  case 0
  show ?case by (simp add: digits_value_def)
next
  case (Suc n)
  have "replicate (Suc n) CHR ''0'' = replicate n CHR ''0'' @ [CHR ''0'']"
    by (simp add: replicate_append_same)
  then have "digits_value (replicate (Suc n) CHR ''0'') = digits_value (replicate n CHR ''0'') * 10 + 0"
    by (simp only: digits_value_snoc) simp
  with Suc show ?case by simp
qed

lemma process_query_response_raises:
  "interpret_response dm r = Inl e \<Longrightarrow> process_query_response params dm r = (dm, [], [], Some e)"
  by (simp add: process_query_response_def)

text \<open>
  C5 as the specification states it fails twice. \<open>-1\<close> is the value of the state
  \<open>unknown\<close>, but a line whose fourth field is \<open>-1\<close> does not match the pattern, whose
  groups are runs of digits: the line is ignored and no record is built. And a line
  whose six fields are all in range, the time being 4301 zeros, is not accepted either:
  \<open>int()\<close> raises \<open>ValueError\<close> outside any \<open>try\<close>, the callback ends there, the cursor does
  not move and no query is sent.
\<close>

theorem state_minus_one_counterexample:
  "DeviceState_of_int (-1) = Inr unknown
   \<and> interpret_response dm_init ''0 1 0 -1 100 5'' = Inr (dm_init, [])
   \<and> devices (fst (process_query_response demo_settings dm_init ''0 1 0 -1 100 5'')) = Map.empty
   \<and> in_range [0, 1, 0, 2, 100, digits_value (replicate 4301 CHR ''0'')]
   \<and> process_query_response demo_settings dm_init (''0 1 0 2 100 '' @ replicate 4301 CHR ''0'')
       = (dm_init, [], [], Some ValueError)"
proof -
  have a: "DeviceState_of_int (-1) = Inr unknown" by (simp add: DeviceState_of_int_def)
  have nm: "info_parser_match ''0 1 0 -1 100 5'' = None" by code_simp
  have b: "interpret_response dm_init ''0 1 0 -1 100 5'' = Inr (dm_init, [])"
    by (simp add: interpret_response_def nm)
  have c: "devices (fst (process_query_response demo_settings dm_init ''0 1 0 -1 100 5''))
            = Map.empty"
    unfolding process_query_response_devices b by (simp add: dm_init_def)
  have z: "digits_value (replicate 4301 CHR ''0'') = 0"
    by (rule digits_value_zeros)
  have d: "in_range [0, 1, 0, 2, 100, digits_value (replicate 4301 CHR ''0'')]"
    by (simp add: in_range_def z)
  have f: "list_all (\<lambda>g. g \<noteq> [] \<and> list_all is_digit g)
      [''0'', ''1'', ''0'', ''2'', ''100'', replicate 4301 CHR ''0'']"
    by (simp add: is_digit_def list_all_iff)
  have s: "valid_seps ['' '', '' '', '' '', '' '', '' '']"
    by (simp add: valid_seps_def is_sep_def)
  have l: "max_str_digits < length (replicate 4301 CHR ''0'')"
    by (simp add: max_str_digits_def)
  have "interpret_response dm_init
      (''0'' @ '' '' @ ''1'' @ '' '' @ ''0'' @ '' '' @ ''2'' @ '' '' @ ''100'' @ '' ''
         @ replicate 4301 CHR ''0'') = Inl ValueError"
    by (rule overlong_time_raises [OF f s l])
  then have "interpret_response dm_init (''0 1 0 2 100 '' @ replicate 4301 CHR ''0'')
      = Inl ValueError" by simp
  then have e: "process_query_response demo_settings dm_init
      (''0 1 0 2 100 '' @ replicate 4301 CHR ''0'') = (dm_init, [], [], Some ValueError)"
    by (rule process_query_response_raises)
  show ?thesis
    apply (intro conjI)
    apply (rule a)
    apply (rule b)
    apply (rule c)
    apply (rule d)
    apply (rule e)
    done
qed

lemma six_cases: "(\<forall>i<6. P (i::nat)) = (P 0 \<and> P 1 \<and> P 2 \<and> P 3 \<and> P 4 \<and> P 5)"
proof -
  have "\<And>i::nat. i < 6 \<longleftrightarrow> i = 0 \<or> i = 1 \<or> i = 2 \<or> i = 3 \<or> i = 4 \<or> i = 5" by arith
  then show ?thesis by auto
qed

text \<open>
  C5, amended: a response line of six unsigned decimal fields, each within the digit
  limit of \<open>int()\<close>, delimited by runs of whitespace or commas, is accepted exactly when
  the six integers are in range: type 0 to 2, group 0 to 7, mode 0 to 1, state 0 to 5,
  health 0 to 255, time not negative (which holds of every such field). An accepted
  line builds the record of the polled address whose six integers are those of the
  line, with \<open>missing_in_action\<close> false, and puts it in the registry in place of any
  record of that address; a rejected one leaves the registry unchanged.
\<close>

theorem getinfo_accepts_unsigned_in_range:
  assumes "list_all is_field [ft, fg, fm, fs, fh, fti]" and "valid_seps [s1, s2, s3, s4, s5]"
  shows "(in_range (map digits_value [ft, fg, fm, fs, fh, fti]) \<longrightarrow>
           (\<exists>d. interpret_response dm (ft @ s1 @ fg @ s2 @ fm @ s3 @ fs @ s4 @ fh @ s5 @ fti) =
                  Inr (dm\<lparr>devices := (devices dm)(current_device dm \<mapsto> d)\<rparr>, [device_updated d])
                \<and> devices (fst (process_query_response params dm
                     (ft @ s1 @ fg @ s2 @ fm @ s3 @ fs @ s4 @ fh @ s5 @ fti)))
                    = (devices dm)(current_device dm \<mapsto> d)
                \<and> dev_id d = current_device dm
                \<and> device_fields d = map digits_value [ft, fg, fm, fs, fh, fti]
                \<and> \<not> missing_in_action d))
    \<and> (\<not> in_range (map digits_value [ft, fg, fm, fs, fh, fti]) \<longrightarrow>
          interpret_response dm (ft @ s1 @ fg @ s2 @ fm @ s3 @ fs @ s4 @ fh @ s5 @ fti)
            = Inr (dm, [])
          \<and> devices (fst (process_query_response params dm
               (ft @ s1 @ fg @ s2 @ fm @ s3 @ fs @ s4 @ fh @ s5 @ fti))) = devices dm)
    \<and> list_all (\<lambda>v. 0 \<le> v) (map digits_value [ft, fg, fm, fs, fh, fti])"
proof -
  let ?r = "ft @ s1 @ fg @ s2 @ fm @ s3 @ fs @ s4 @ fh @ s5 @ fti"
  let ?gs = "[ft, fg, fm, fs, fh, fti]"
  from assms(1) have f: "list_all (\<lambda>g. g \<noteq> [] \<and> list_all is_digit g) ?gs"
    and sh: "\<forall>i<6. length (?gs ! i) \<le> max_str_digits"
    unfolding six_cases by (simp_all add: is_field_def)
  from f have f0: "ft \<noteq> []" "list_all is_digit ft" by simp_all
  have n: "?r \<noteq> ''Ack 2''" by (rule digits_not_ack [OF f0])
  note m = match_six_fields [OF f assms(2)]
  note im = interpret_match [OF n m, of dm]
  have nn: "\<forall>i<6. 0 \<le> digits_value (?gs ! i)"
    using info_parser_match_nonneg [OF m] by blast
  have vs: "map (\<lambda>i. digits_value (?gs ! i)) [0, 1, 2, 3, 4, 5] = map digits_value ?gs"
    by simp
  have acc: "in_range (map digits_value ?gs) \<longrightarrow>
           (\<exists>d. interpret_response dm ?r =
                  Inr (dm\<lparr>devices := (devices dm)(current_device dm \<mapsto> d)\<rparr>, [device_updated d])
                \<and> devices (fst (process_query_response params dm ?r))
                    = (devices dm)(current_device dm \<mapsto> d)
                \<and> dev_id d = current_device dm
                \<and> device_fields d = map digits_value ?gs
                \<and> \<not> missing_in_action d)"
  proof
    assume "in_range (map digits_value ?gs)"
    then have "in_range (map (\<lambda>i. digits_value (?gs ! i)) [0, 1, 2, 3, 4, 5])"
      unfolding vs .
    from validate_fields_accept [OF sh this, of "current_device dm"]
    obtain d where d: "validate_fields (current_device dm) ?gs = Inr (Some d)" ..
    have i: "interpret_response dm ?r =
        Inr (dm\<lparr>devices := (devices dm)(current_device dm \<mapsto> d)\<rparr>, [device_updated d])"
      unfolding im d by simp
    have r: "devices (fst (process_query_response params dm ?r))
        = (devices dm)(current_device dm \<mapsto> d)"
      unfolding process_query_response_devices i by simp
    have df: "device_fields d = map digits_value ?gs"
      using device_fields_of_validated [OF d] unfolding vs .
    from validate_fields_Some [OF d] have "dev_id d = current_device dm" "\<not> missing_in_action d"
      by blast+
    with i r df show "\<exists>d. interpret_response dm ?r =
                  Inr (dm\<lparr>devices := (devices dm)(current_device dm \<mapsto> d)\<rparr>, [device_updated d])
                \<and> devices (fst (process_query_response params dm ?r))
                    = (devices dm)(current_device dm \<mapsto> d)
                \<and> dev_id d = current_device dm
                \<and> device_fields d = map digits_value ?gs
                \<and> \<not> missing_in_action d"
      by blast
  qed
  have rej: "\<not> in_range (map digits_value ?gs) \<longrightarrow>
          interpret_response dm ?r = Inr (dm, [])
          \<and> devices (fst (process_query_response params dm ?r)) = devices dm"
  proof
    assume "\<not> in_range (map digits_value ?gs)"
    then have "\<not> in_range (map (\<lambda>i. digits_value (?gs ! i)) [0, 1, 2, 3, 4, 5])"
      unfolding vs .
    from validate_fields_reject [OF sh nn this, of "current_device dm"]
    have i: "interpret_response dm ?r = Inr (dm, [])"
      unfolding im by simp
    have "devices (fst (process_query_response params dm ?r)) = devices dm"
      unfolding process_query_response_devices i by simp
    with i show "interpret_response dm ?r = Inr (dm, [])
          \<and> devices (fst (process_query_response params dm ?r)) = devices dm" by blast
  qed
  have pos: "list_all (\<lambda>v. 0 \<le> v) (map digits_value ?gs)"
    using nn unfolding six_cases by simp
  from acc rej pos show ?thesis by blast
qed

lemma demo_fields: "list_all is_field [''0'', ''1'', ''0'', ''2'', ''100'', ''5'']"
  by (simp add: is_field_def is_digit_def max_str_digits_def)

lemma bad_fields: "list_all is_field [''0'', ''9'', ''0'', ''2'', ''100'', ''5'']"
  by (simp add: is_field_def is_digit_def max_str_digits_def)

lemma demo_seps: "valid_seps ['', '', '' '', ''  '', '','', '' '']"
  by (simp add: valid_seps_def is_sep_def)

lemma demo_in_range: "in_range (map digits_value [''0'', ''1'', ''0'', ''2'', ''100'', ''5''])"
  by (simp add: in_range_def digits_value_def)

lemma bad_out_of_range: "\<not> in_range (map digits_value [''0'', ''9'', ''0'', ''2'', ''100'', ''5''])"
  by (simp add: in_range_def digits_value_def)

theorem getinfo_accepts_unsigned_in_range_witness:
  "list_all is_field [''0'', ''1'', ''0'', ''2'', ''100'', ''5'']
   \<and> valid_seps ['', '', '' '', ''  '', '','', '' '']
   \<and> in_range (map digits_value [''0'', ''1'', ''0'', ''2'', ''100'', ''5''])
   \<and> (\<exists>d. interpret_response dm_init ''0, 1 0  2,100 5'' =
            Inr (dm_init\<lparr>devices := (devices dm_init)(current_device dm_init \<mapsto> d)\<rparr>,
                 [device_updated d])
          \<and> device_fields d = [0, 1, 0, 2, 100, 5] \<and> \<not> missing_in_action d)
   \<and> list_all is_field [''0'', ''9'', ''0'', ''2'', ''100'', ''5'']
   \<and> \<not> in_range (map digits_value [''0'', ''9'', ''0'', ''2'', ''100'', ''5''])
   \<and> interpret_response dm_init ''0, 9 0  2,100 5'' = Inr (dm_init, [])"
proof -
  note a = getinfo_accepts_unsigned_in_range [OF demo_fields demo_seps, of dm_init demo_settings,
      THEN conjunct1, THEN mp, OF demo_in_range]
  note b = getinfo_accepts_unsigned_in_range [OF bad_fields demo_seps, of dm_init demo_settings,
      THEN conjunct2, THEN conjunct1, THEN mp, OF bad_out_of_range, THEN conjunct1]
  have v: "map digits_value [''0'', ''1'', ''0'', ''2'', ''100'', ''5''] = [0, 1, 0, 2, 100, 5]"
    by (simp add: digits_value_def)
  from a have a': "\<exists>d. interpret_response dm_init ''0, 1 0  2,100 5'' =
            Inr (dm_init\<lparr>devices := (devices dm_init)(current_device dm_init \<mapsto> d)\<rparr>,
                 [device_updated d])
          \<and> device_fields d = [0, 1, 0, 2, 100, 5] \<and> \<not> missing_in_action d"
    unfolding v by auto
  from b have b': "interpret_response dm_init ''0, 9 0  2,100 5'' = Inr (dm_init, [])" by simp
  show ?thesis
    apply (intro conjI)
    apply (rule demo_fields)
    apply (rule demo_seps)
    apply (rule demo_in_range)
    apply (rule a')
    apply (rule bad_fields)
    apply (rule bad_out_of_range)
    apply (rule b')
    done
qed


















section \<open>Properties of the program\<close>

text \<open>
  \<open>read_target\<close> names the callback that \<open>handle_read\<close> calls: the calls in the effects of
  a read that returns are the one it gives, or none.
\<close>

lemma send_commands_effects: "snd (send_commands t cs) = map enqueued cs"
  by (induction cs arbitrary: t) (simp_all add: send_command_def Let_def split_beta)

lemma finalize_request_effects:
  "finalize_request t = Inr (t', es) \<Longrightarrow> \<forall>cb r. called cb r \<notin> set es"
  by (auto simp add: finalize_request_def Let_def split: if_splits list.splits)

lemma handle_read_calls:
  assumes "handle_read line sends raises t = Inr (t', es)"
  shows "(called cb r \<in> set es) = (read_target line t = Some (cb, r))"
proof (cases "read_target line t")
  case None
  with assms show ?thesis
    by (auto simp add: handle_read_def read_target_def Let_def split_beta
        dest: finalize_request_effects
        split: if_splits option.splits sum.splits list.splits)
next
  case (Some a)
  with assms show ?thesis
    by (auto simp add: handle_read_def read_target_def Let_def split_beta send_commands_effects
        dest: finalize_request_effects
        split: if_splits option.splits sum.splits list.splits)
qed

lemma disconnected_after: "disconnected (on_disconnected (p\<lparr>p_open := False\<rparr>) now)"
  by (simp add: disconnected_def on_disconnected_def transport_disable_def transport_clear_def
      dm_disable_def dm_clear_def game_disable_def stop_timer_reset Let_def)

lemma disconnected_step:
  assumes d: "disconnected p" and e: "fst e \<noteq> connect_clicked True"
  shows "\<exists>p'. program_step params p e = Inr p' \<and> disconnected p'"
proof -
  obtain ev now where en: "e = (ev, now)" by (cases e)
  from d have o: "\<not> p_open p" and ts: "t_state (p_transport p) = t_disabled"
    and dt: "\<not> delay_timer (p_transport p)" and q: "command_queue (p_transport p) = []"
    and de: "\<not> dm_enabled (p_devices p)" and gs: "g_state (p_game p) = g_disabled"
    and tt: "\<not> tick_timer (p_game p)"
    by (simp_all add: disconnected_def)
  show ?thesis
  proof (cases ev)
    case (connect_clicked ok)
    with e en have "\<not> ok" by simp
    with connect_clicked en d show ?thesis by simp
  next
    case disconnect_clicked
    with en show ?thesis by (simp add: disconnected_after)
  next
    case upload_clicked
    with en d show ?thesis by (simp add: disconnected_def upload_settings_def)
  next
    case reset_clicked
    with en d gs show ?thesis by (simp add: disconnected_def game_slot_def reset_game_def)
  next
    case start_clicked
    with en d gs show ?thesis by (simp add: disconnected_def game_slot_def start_game_def)
  next
    case stop_clicked
    with en d gs show ?thesis by (simp add: disconnected_def game_slot_def stop_game_def)
  next
    case pause_clicked
    with en d gs show ?thesis by (simp add: disconnected_def game_slot_def pause_game_def)
  next
    case (mode_changed device_id mode)
    with en d de show ?thesis by (simp add: disconnected_def set_mode_def)
  next
    case tick_timeout
    with en d tt show ?thesis by simp
  next
    case delay_timeout
    with en d dt show ?thesis by (simp add: timer_timeout_def)
  next
    case (bytes_written n)
    with en d ts show ?thesis by (simp add: handle_write_def)
  next
    case (ready_read line)
    have rt: "read_target line (p_transport p) = None" using ts by (simp add: read_target_def)
    have hr: "handle_read line [] None (p_transport p) = Inr (p_transport p, [])"
      using ts by (simp add: handle_read_def)
    from ready_read en d show ?thesis by (simp add: on_ready_read_def rt hr)
  qed
qed

lemma disconnected_run:
  "disconnected p \<Longrightarrow> \<forall>e\<in>set evs. fst e \<noteq> connect_clicked True \<Longrightarrow>
   \<exists>p'. program_run params p evs = Inr p' \<and> disconnected p'"
proof (induction evs arbitrary: p)
  case Nil
  then show ?case by simp
next
  case (Cons e evs)
  from Cons.prems(2) have e: "fst e \<noteq> connect_clicked True"
    and r: "\<forall>e\<in>set evs. fst e \<noteq> connect_clicked True" by simp_all
  from disconnected_step [OF Cons.prems(1) e, of params]
  obtain p1 where s: "program_step params p e = Inr p1" and d1: "disconnected p1" by blast
  from Cons.IH [OF d1 r] s show ?case by simp
qed

text \<open>
  C10 as the specification states it fails. \<open>Reset4Combat\<close> is written and the transport
  waits for its reply. A reply \<open>Ack 0\<close> that comes now is passed to the callback and the
  session becomes \<open>ready\<close>. When the port is disconnected first, the same reply reaches no
  callback and the session stays \<open>disabled\<close>.
\<close>

theorem late_ack_not_delivered:
  "map_sum id (\<lambda>p. (g_state (p_game p), t_state (p_transport p),
              map callback (command_queue (p_transport p))))
     (program_run no_settings (program_init 600) reset_in_flight)
     = Inr (g_idle, t_work, [Some process_reset_response_cb, Some process_query_response_cb])
   \<and> map_sum id (\<lambda>p. g_state (p_game p))
       (program_run no_settings (program_init 600) (reset_in_flight @ [(ready_read ack0, 40)]))
       = Inr g_ready
   \<and> map_sum id (\<lambda>p. g_state (p_game p))
       (program_run no_settings (program_init 600)
          (reset_in_flight @ [(disconnect_clicked, 40), (ready_read ack0, 41)]))
       = Inr g_disabled"
  by code_simp

text \<open>
  C10, amended. The five callbacks assign the new state on \<open>Ack 0\<close> without reading the
  old one. But \<open>disable\<close> has one caller, the signal \<open>disconnected\<close>, whose slots disable
  the transport before the session and clear the queue after it: from then on, whatever
  the buttons, the timers and the serial port do, no exception is raised, no callback is
  called and the session stays \<open>disabled\<close>, until the port is connected again.
\<close>

theorem no_ack_reaches_disabled_session:
  assumes "list_all (\<lambda>e. fst e \<noteq> connect_clicked True) evs"
  shows "g_state (fst (process_reset_response g ''Ack 0'' later)) = g_ready
    \<and> g_state (fst (process_start_response g ''Ack 0'' later)) = g_running
    \<and> g_state (fst (process_stop_response g ''Ack 0'' later)) = g_idle
    \<and> g_state (fst (process_pause_response g ''Ack 0'' later)) = g_paused
    \<and> g_state (fst (process_unpause_response g ''Ack 0'' later)) = g_running
    \<and> (\<exists>p'. program_run params p ((disconnect_clicked, now) # evs) = Inr p'
          \<and> g_state (p_game p') = g_disabled \<and> t_state (p_transport p') = t_disabled
          \<and> command_queue (p_transport p') = []
          \<and> (\<forall>line. read_target line (p_transport p') = None))"
proof -
  have a: "g_state (fst (process_reset_response g ''Ack 0'' later)) = g_ready"
    "g_state (fst (process_start_response g ''Ack 0'' later)) = g_running"
    "g_state (fst (process_stop_response g ''Ack 0'' later)) = g_idle"
    "g_state (fst (process_pause_response g ''Ack 0'' later)) = g_paused"
    "g_state (fst (process_unpause_response g ''Ack 0'' later)) = g_running"
    by (simp_all add: response_defs timer_eqs)
  have s: "program_step params p (disconnect_clicked, now)
      = Inr (on_disconnected (p\<lparr>p_open := False\<rparr>) now)" by simp
  from assms have "\<forall>e\<in>set evs. fst e \<noteq> connect_clicked True" by (simp add: list_all_iff)
  from disconnected_run [OF disconnected_after this, of params p now]
  obtain p' where r: "program_run params (on_disconnected (p\<lparr>p_open := False\<rparr>) now) evs = Inr p'"
    and d: "disconnected p'" by blast
  have "program_run params p ((disconnect_clicked, now) # evs) = Inr p'"
    using r by simp
  with d have b: "\<exists>p'. program_run params p ((disconnect_clicked, now) # evs) = Inr p'
          \<and> g_state (p_game p') = g_disabled \<and> t_state (p_transport p') = t_disabled
          \<and> command_queue (p_transport p') = []
          \<and> (\<forall>line. read_target line (p_transport p') = None)"
    by (auto simp add: disconnected_def read_target_def)
  from a b show ?thesis by blast
qed

theorem no_ack_reaches_disabled_session_witness:
  "list_all (\<lambda>e. fst e \<noteq> connect_clicked True)
     [(ready_read ack0, 41), (reset_clicked, 42), (delay_timeout, 43),
      (connect_clicked False, 44), (bytes_written 14, 45)]
   \<and> (\<exists>p'. program_run no_settings (program_init 600)
              ((disconnect_clicked, 40) #
               [(ready_read ack0, 41), (reset_clicked, 42), (delay_timeout, 43),
                (connect_clicked False, 44), (bytes_written 14, 45)]) = Inr p'
          \<and> g_state (p_game p') = g_disabled \<and> t_state (p_transport p') = t_disabled
          \<and> command_queue (p_transport p') = []
          \<and> (\<forall>line. read_target line (p_transport p') = None))"
proof -
  have h: "list_all (\<lambda>e. fst e \<noteq> connect_clicked True)
     [(ready_read ack0, 41), (reset_clicked, 42), (delay_timeout, 43),
      (connect_clicked False, 44), (bytes_written 14, 45)]" by simp
  note t = no_ack_reaches_disabled_session [OF h, of _ _ no_settings "program_init 600" 40]
  note b = t [THEN conjunct2, THEN conjunct2, THEN conjunct2, THEN conjunct2, THEN conjunct2]
  show ?thesis
    apply (intro conjI)
    apply (rule h)
    apply (rule b)
    done
qed

text \<open>
  C7 fails in the program. The session runs from 1000 and is paused at 4000, with three
  seconds elapsed. Two clicks on the pause button queue two resumptions. The first
  acknowledgment, at 9000, restarts the stopwatch; at 9099 the session is \<open>running\<close> with
  3099 ms elapsed and the second command is waiting for its reply. That reply restarts
  the stopwatch again without adding its reading to the base: the session is still
  \<open>running\<close> and the elapsed time has fallen to 3000 ms. Whatever the state, the callback
  of the resumption leaves as elapsed time the base alone.
\<close>

theorem double_resume_loses_elapsed_time:
  "map_sum id (\<lambda>p. (g_state (p_game p), elapsed_ms (p_game p) 4000))
     (program_run no_settings (program_init 600) game_paused_run) = Inr (g_paused, 3000)
   \<and> map_sum id (\<lambda>p. (g_state (p_game p), elapsed_ms (p_game p) 9099,
                 t_state (p_transport p), hd (command_queue (p_transport p))))
       (program_run no_settings (program_init 600) resumed_once)
       = Inr (g_running, 3099, t_work, state_command previous process_unpause_response_cb)
   \<and> map_sum id (\<lambda>p. (g_state (p_game p), elapsed_ms (p_game p) 9099))
       (program_run no_settings (program_init 600) resumed_twice) = Inr (g_running, 3000)
   \<and> elapsed_ms (fst (process_unpause_response g ''Ack 0'' now)) now = prev_elapsed_time g"
proof -
  have a: "map_sum id (\<lambda>p. (g_state (p_game p), elapsed_ms (p_game p) 4000))
     (program_run no_settings (program_init 600) game_paused_run) = Inr (g_paused, 3000)"
    by code_simp
  have b: "map_sum id (\<lambda>p. (g_state (p_game p), elapsed_ms (p_game p) 9099,
                 t_state (p_transport p), hd (command_queue (p_transport p))))
       (program_run no_settings (program_init 600) resumed_once)
       = Inr (g_running, 3099, t_work, state_command previous process_unpause_response_cb)"
    by code_simp
  have c: "map_sum id (\<lambda>p. (g_state (p_game p), elapsed_ms (p_game p) 9099))
       (program_run no_settings (program_init 600) resumed_twice) = Inr (g_running, 3000)"
    by code_simp
  have d: "elapsed_ms (fst (process_unpause_response g ''Ack 0'' now)) now = prev_elapsed_time g"
    by (simp add: process_unpause_response_def start_timer_keep elapsed_ms_def)
  from a b c d show ?thesis by blast
qed

section \<open>Properties of the transport\<close>

lemma completion_ignored:
  assumes "t_state t \<noteq> t_work" and "is_completion ev"
  shows "transport_step t ev = Inr (t, [])"
  using assms by (cases ev) (simp_all add: handle_write_def handle_read_def)

lemma completions_ignored:
  "t_state t \<noteq> t_work \<Longrightarrow> list_all is_completion evs \<Longrightarrow> transport_run t evs = Inr (t, [])"
  by (induction evs) (simp_all add: completion_ignored)

text \<open>
  C2 as the specification states it fails in the state \<open>work\<close>. After \<open>enable\<close> has written
  \<open>Ping\<close>, \<open>clear\<close> empties the queue and leaves the state \<open>work\<close>. The reply to \<open>Ping\<close> then
  raises \<open>IndexError\<close> at \<open>_command_queue[0]\<close>. When a command was sent in between, the
  reply to \<open>Ping\<close> is passed to the callback of that command, which was never written.
\<close>

theorem clear_at_work_counterexample:
  "transport_run transport_init [te_enable True, te_clear] =
     Inr (\<lparr>command_queue = [], delay_timer = False, unsent_bytes = 0, t_state = t_work,
           read_complete = False, write_complete = False\<rparr>,
          [enqueued ping_command, written (''Ping'' @ crlf), cleared])
   \<and> transport_run transport_init
        [te_enable True, te_clear, te_ready_read (Some (''Ack 0'' @ crlf)) [] None]
       = Inl IndexError
   \<and> map_sum id snd (transport_run transport_init
        [te_enable True, te_clear, te_send reset_command,
         te_ready_read (Some (''Ack 0'' @ crlf)) [] None])
       = Inr [enqueued ping_command, written (''Ping'' @ crlf), cleared, enqueued reset_command,
              called process_reset_response_cb ''Ack 0'', read_done]"
  by code_simp

text \<open>
  C2, amended. In every state \<open>clear\<close> stops the timer, empties the queue and sets the
  count of unsent bytes to zero, and changes nothing else. Called in the state
  \<open>disabled\<close> or \<open>idle\<close> it is safe: every later completion of a write or of a read finds
  the transport not at work and has no effect. The program calls it in the state
  \<open>disabled\<close> only: the slots of \<open>disconnected\<close> call \<open>disable\<close> first.
\<close>

theorem clear_safe_unless_at_work:
  "transport_clear t = (t\<lparr>delay_timer := False, command_queue := [], unsent_bytes := 0\<rparr>, [cleared])
   \<and> (t_state t \<noteq> t_work \<longrightarrow> list_all is_completion evs \<longrightarrow>
        transport_run (fst (transport_clear t)) evs = Inr (fst (transport_clear t), []))
   \<and> p_transport (on_disconnected p now)
       = fst (transport_clear (fst (transport_disable (p_transport p))))
   \<and> t_state (fst (transport_disable (p_transport p))) = t_disabled"
proof -
  have a: "transport_clear t
      = (t\<lparr>delay_timer := False, command_queue := [], unsent_bytes := 0\<rparr>, [cleared])"
    by (simp add: transport_clear_def)
  have b: "t_state t \<noteq> t_work \<longrightarrow> list_all is_completion evs \<longrightarrow>
        transport_run (fst (transport_clear t)) evs = Inr (fst (transport_clear t), [])"
  proof (intro impI)
    assume s: "t_state t \<noteq> t_work" and c: "list_all is_completion evs"
    from s have "t_state (fst (transport_clear t)) \<noteq> t_work" by (simp add: transport_clear_def)
    then show "transport_run (fst (transport_clear t)) evs = Inr (fst (transport_clear t), [])"
      using c by (rule completions_ignored)
  qed
  have c: "p_transport (on_disconnected p now)
       = fst (transport_clear (fst (transport_disable (p_transport p))))"
    by (simp add: on_disconnected_def Let_def)
  have d: "t_state (fst (transport_disable (p_transport p))) = t_disabled"
    by (simp add: transport_disable_def)
  from a b c d show ?thesis by blast
qed

theorem clear_safe_unless_at_work_witness:
  "t_state (fst (send_command (transport_init\<lparr>t_state := t_idle\<rparr>) reset_command)) \<noteq> t_work
   \<and> list_all is_completion
        [te_bytes_written 14, te_ready_read (Some (''Ack 0'' @ crlf)) [] None]
   \<and> transport_run
        (fst (transport_clear (fst (send_command (transport_init\<lparr>t_state := t_idle\<rparr>) reset_command))))
        [te_bytes_written 14, te_ready_read (Some (''Ack 0'' @ crlf)) [] None]
       = Inr (fst (transport_clear
                (fst (send_command (transport_init\<lparr>t_state := t_idle\<rparr>) reset_command))), [])"
proof -
  have h1: "t_state (fst (send_command (transport_init\<lparr>t_state := t_idle\<rparr>) reset_command))
      \<noteq> t_work"
    by (simp add: send_command_def Let_def)
  have h2: "list_all is_completion
        [te_bytes_written 14, te_ready_read (Some (''Ack 0'' @ crlf)) [] None]" by simp
  note b = clear_safe_unless_at_work [THEN conjunct2, THEN conjunct1, THEN mp, THEN mp, OF h1 h2]
  show ?thesis
    apply (intro conjI)
    apply (rule h1)
    apply (rule h2)
    apply (rule b)
    done
qed






















section \<open>Properties of the upload pass\<close>







lemma device_pushes_missing:
  "reg a = Some d \<Longrightarrow> missing_in_action d \<Longrightarrow> fst (device_pushes params reg a) = []"
  by (simp add: device_pushes_def)

lemma device_pushes_unknown: "reg a = None \<Longrightarrow> fst (device_pushes params reg a) = []"
  by (simp add: device_pushes_def)






























end
